theory Spec2Isabelle
  imports Main "HOL-Library.Word" "HOL-Library.Signed_Division"
begin

unbundle bit_operations_syntax

section \<open>NeoPatterns: the stepping machine, the strip controller and the six patterns\<close>

text \<open>
  A shallow embedding of \<^verbatim>\<open>NeoPatterns.h\<close>. The fixed-width types of the source are
  words: \<^verbatim>\<open>uint8_t\<close> and \<^verbatim>\<open>byte\<close> are \<open>8 word\<close>, \<^verbatim>\<open>uint16_t\<close> is \<open>16 word\<close>,
  \<^verbatim>\<open>uint32_t\<close> and \<^verbatim>\<open>unsigned long\<close> (32 bits on every Arduino core) are \<open>32 word\<close>, and
  \<^verbatim>\<open>int8_t\<close> is an \<open>8 word\<close> read in two's complement (\<open>sint\<close>, \<open>scast\<close>).
  The clock \<^verbatim>\<open>millis()\<close> is an input: every function that reads it takes the reading as
  an argument.
\<close>

subsection \<open>Types and constants\<close>

type_synonym uint8_t = "8 word"
type_synonym uint16_t = "16 word"
type_synonym millis_t = "32 word"
type_synonym direction_t = "8 word"
type_synonym color_t = "32 word"

definition FORWARD :: direction_t where
  "FORWARD = 1"

definition REVERSE :: direction_t where
  "REVERSE = - 1"

text \<open>
  The dynamic type of a pattern object, which selects the override of the pure virtual
  \<^verbatim>\<open>Update()\<close>.
\<close>

datatype pattern_class = RainbowCycle | TheaterChase | ColorWipe | Scanner | Pulsar | Fade

text \<open>
  The fields of \<^verbatim>\<open>class NeoPattern\<close>. The reference \<^verbatim>\<open>Pixels\<close> is not a field of the
  record: the model has one strip, and every pattern writes to it. \<open>Completed\<close> is a
  ghost field: \<^verbatim>\<open>OnComplete()\<close> is an empty virtual function in the source, and the field
  counts how many times it has been called.
\<close>

record NeoPattern =
  kind :: pattern_class
  Interval :: millis_t
  LastUpdate :: millis_t
  Color1 :: color_t
  Color2 :: color_t
  TotalSteps :: uint16_t
  Index :: uint16_t
  Direction :: direction_t
  Completed :: nat

subsection \<open>The stepping machine (class NeoPattern)\<close>

definition Reset :: "NeoPattern \<Rightarrow> NeoPattern" where
  "Reset p = p\<lparr>Index := 0, LastUpdate := 0\<rparr>"

text \<open>
  The constructor stores its arguments and calls \<^verbatim>\<open>Reset()\<close>; it checks nothing.
\<close>

definition NeoPattern_new ::
  "pattern_class \<Rightarrow> millis_t \<Rightarrow> color_t \<Rightarrow> color_t \<Rightarrow> uint16_t \<Rightarrow> direction_t \<Rightarrow> NeoPattern" where
  "NeoPattern_new k interval color1 color2 totalSteps dir =
     Reset \<lparr>kind = k, Interval = interval, LastUpdate = 0, Color1 = color1, Color2 = color2,
            TotalSteps = totalSteps, Index = 0, Direction = dir, Completed = 0\<rparr>"

text \<open>
  \<^verbatim>\<open>millis() - LastUpdate > Interval\<close>, in unsigned 32-bit arithmetic: the difference
  wraps around.
\<close>

definition ShouldUpdate :: "millis_t \<Rightarrow> NeoPattern \<Rightarrow> bool" where
  "ShouldUpdate now p = (now - LastUpdate p > Interval p)"

definition OnComplete :: "NeoPattern \<Rightarrow> NeoPattern" where
  "OnComplete p = p\<lparr>Completed := Suc (Completed p)\<rparr>"

text \<open>
  \<^verbatim>\<open>Index += Direction\<close> adds the sign-extended direction and narrows the sum to 16
  bits, whatever the width of \<^verbatim>\<open>int\<close>; both comparisons are between non-negative
  values, so \<^verbatim>\<open>Index <= 0\<close> is a comparison of the unsigned index with zero.
\<close>

definition Increment :: "NeoPattern \<Rightarrow> NeoPattern" where
  "Increment p =
     (let p1 = p\<lparr>Index := Index p + scast (Direction p)\<rparr> in
      if Index p1 \<ge> TotalSteps p1 then OnComplete (p1\<lparr>Index := 0\<rparr>)
      else if Index p1 \<le> 0 then OnComplete (p1\<lparr>Index := TotalSteps p1 - 1\<rparr>)
      else p1)"

definition AfterUpdate :: "millis_t \<Rightarrow> NeoPattern \<Rightarrow> NeoPattern" where
  "AfterUpdate now p = Increment (p\<lparr>LastUpdate := now\<rparr>)"

definition Reverse :: "NeoPattern \<Rightarrow> NeoPattern" where
  "Reverse p =
     (let p1 = p\<lparr>Direction := Direction p * (- 1)\<rparr> in
      p1\<lparr>Index := (if Direction p1 = FORWARD then 0 else TotalSteps p1 - 1)\<rparr>)"

subsection \<open>The width of int\<close>

text \<open>
  The source does not fix the width of \<^verbatim>\<open>int\<close>, and the integer promotions depend on
  it. With a 16-bit \<^verbatim>\<open>int\<close> (the AVR boards) a \<^verbatim>\<open>uint16_t\<close> operand is promoted to
  \<^verbatim>\<open>unsigned int\<close>, and an expression with such an operand is computed modulo \<open>2 ^ 16\<close>.
  With a 32-bit \<^verbatim>\<open>int\<close> (the ARM and ESP boards) \<^verbatim>\<open>uint8_t\<close> and \<^verbatim>\<open>uint16_t\<close> operands
  are both promoted to \<^verbatim>\<open>int\<close>; the expressions of this file then stay far below
  \<open>2 ^ 31\<close>, so they are written over \<open>int\<close>, with the division that truncates towards
  zero (\<open>sdiv\<close>). The functions whose value depends on the width take it as an argument.
\<close>

datatype int_width = Int16 | Int32

datatype error = NullPointer | DanglingPointer | DivisionByZero | SignedOverflow

subsection \<open>The pixel-buffer driver (the base class of NeoPatterns)\<close>

text \<open>
  Modelled from the spec: the base class \<^verbatim>\<open>Adafruit_NeoPixel\<close> is an external library and
  not part of the source. The spec gives its surface: a buffer that is an ordered sequence
  of packed colours, one for each LED, with \<^verbatim>\<open>setPixel(index, color)\<close>,
  \<^verbatim>\<open>getPixel(index)\<close>, \<^verbatim>\<open>pixelCount()\<close>, \<^verbatim>\<open>transmit()\<close> and \<^verbatim>\<open>clear()\<close>, and colours packed
  as \<open>0xRRGGBB\<close>. The record holds the one field the source adds, \<open>ActivePattern\<close> (a
  pointer: \<open>None\<close> is \<^verbatim>\<open>NULL\<close>), the buffer \<open>pixels\<close>, and \<open>shown\<close>, the frames
  transmitted to the hardware so far, the latest first.
\<close>

type_synonym addr = nat

record NeoPatterns =
  ActivePattern :: "addr option"
  pixels :: "color_t list"
  shown :: "color_t list list"

definition numPixels :: "NeoPatterns \<Rightarrow> uint16_t" where
  \<comment> \<open>Modelled from the spec: \<^verbatim>\<open>pixelCount()\<close>, the length of the buffer.\<close>
  "numPixels s = of_nat (length (pixels s))"

definition setPixelColor :: "uint16_t \<Rightarrow> color_t \<Rightarrow> NeoPatterns \<Rightarrow> NeoPatterns" where
  \<comment> \<open>Modelled from the spec: \<^verbatim>\<open>setPixel(index, color)\<close>; an index beyond the strip
     writes nothing.\<close>
  "setPixelColor n c s =
     (if unat n < length (pixels s) then s\<lparr>pixels := (pixels s)[unat n := c]\<rparr> else s)"

definition getPixelColor :: "uint16_t \<Rightarrow> NeoPatterns \<Rightarrow> color_t" where
  \<comment> \<open>Modelled from the spec: \<^verbatim>\<open>getPixel(index)\<close>; an index beyond the strip reads 0.\<close>
  "getPixelColor n s = (if unat n < length (pixels s) then pixels s ! unat n else 0)"

definition show_strip :: "NeoPatterns \<Rightarrow> NeoPatterns" where
  \<comment> \<open>Modelled from the spec: \<^verbatim>\<open>show()\<close>, the spec's \<^verbatim>\<open>transmit()\<close>, pushes the buffer
     to the hardware.\<close>
  "show_strip s = s\<lparr>shown := pixels s # shown s\<rparr>"

definition clear :: "NeoPatterns \<Rightarrow> NeoPatterns" where
  \<comment> \<open>Modelled from the spec: \<^verbatim>\<open>clear()\<close> sets every pixel to the off colour.\<close>
  "clear s = s\<lparr>pixels := replicate (length (pixels s)) 0\<rparr>"

definition Color :: "uint8_t \<Rightarrow> uint8_t \<Rightarrow> uint8_t \<Rightarrow> color_t" where
  \<comment> \<open>Modelled from the spec: a colour is packed as \<open>0xRRGGBB\<close>.\<close>
  "Color r g b = push_bit 16 (ucast r) OR push_bit 8 (ucast g) OR ucast b"

subsection \<open>The controller (class NeoPatterns)\<close>

text \<open>
  The constructor hands the pixel count, the pin and the strip type to the driver and
  sets \<^verbatim>\<open>ActivePattern\<close> to \<^verbatim>\<open>NULL\<close>. The driver's buffer starts with every pixel off and
  nothing transmitted.
\<close>

definition NeoPatterns_new :: "uint16_t \<Rightarrow> uint8_t \<Rightarrow> uint8_t \<Rightarrow> NeoPatterns" where
  "NeoPatterns_new n pin ty = \<lparr>ActivePattern = None, pixels = replicate (unat n) 0, shown = []\<rparr>"

definition IsActive :: "NeoPatterns \<Rightarrow> bool" where
  "IsActive s = (ActivePattern s \<noteq> None)"

text \<open>The overload \<^verbatim>\<open>IsActive(const NeoPattern*)\<close>: a comparison of two pointers.\<close>

definition IsActive_ptr :: "NeoPatterns \<Rightarrow> addr option \<Rightarrow> bool" where
  "IsActive_ptr s pattern = (ActivePattern s = pattern)"

definition Stop :: "NeoPatterns \<Rightarrow> NeoPatterns" where
  "Stop s = show_strip (clear (s\<lparr>ActivePattern := None\<rparr>))"

text \<open>
  A loop \<^verbatim>\<open>for (int i = 0; i < numPixels(); ++i)\<close> runs its body for every pixel index
  in ascending order. (No body changes the pixel count. A 16-bit \<^verbatim>\<open>int\<close> counter reaches
  every index of a strip of fewer than 32768 pixels, more than the memory of such a board
  holds.)
\<close>

definition for_pixels :: "(nat \<Rightarrow> NeoPatterns \<Rightarrow> NeoPatterns) \<Rightarrow> NeoPatterns \<Rightarrow> NeoPatterns" where
  "for_pixels body s = fold body [0..<unat (numPixels s)] s"

definition ColorSet :: "color_t \<Rightarrow> NeoPatterns \<Rightarrow> NeoPatterns" where
  "ColorSet color s = show_strip (for_pixels (\<lambda>i. setPixelColor (of_nat i) color) s)"

definition Red :: "color_t \<Rightarrow> uint8_t" where
  "Red color = ucast (drop_bit 16 color AND 0xFF)"

definition Green :: "color_t \<Rightarrow> uint8_t" where
  "Green color = ucast (drop_bit 8 color AND 0xFF)"

definition Blue :: "color_t \<Rightarrow> uint8_t" where
  "Blue color = ucast (color AND 0xFF)"

text \<open>
  \<^verbatim>\<open>Red(color) >> 1\<close> shifts the promoted channel and narrows it back to \<^verbatim>\<open>uint8_t\<close>.
\<close>

definition DimColor :: "color_t \<Rightarrow> color_t" where
  "DimColor color = Color (drop_bit 1 (Red color)) (drop_bit 1 (Green color)) (drop_bit 1 (Blue color))"

text \<open>
  Every argument of \<^verbatim>\<open>Color\<close> in \<^verbatim>\<open>Wheel\<close> is an \<^verbatim>\<open>int\<close> expression narrowed to
  \<^verbatim>\<open>uint8_t\<close>, which is the same expression computed modulo 256.
\<close>

definition Wheel :: "uint8_t \<Rightarrow> color_t" where
  "Wheel WheelPos0 =
     (let WheelPos = 255 - WheelPos0 in
      if WheelPos < 85 then Color (255 - WheelPos * 3) 0 (WheelPos * 3)
      else if WheelPos < 170 then
        (let WheelPos = WheelPos - 85 in Color 0 (WheelPos * 3) (255 - WheelPos * 3))
      else
        (let WheelPos = WheelPos - 170 in Color (WheelPos * 3) (255 - WheelPos * 3) 0))"

subsection \<open>The six patterns\<close>

definition RainbowCycle_new :: "millis_t \<Rightarrow> direction_t \<Rightarrow> NeoPattern" where
  "RainbowCycle_new interval dir = NeoPattern_new RainbowCycle interval 0 0 255 dir"

definition TheaterChase_new ::
  "NeoPatterns \<Rightarrow> millis_t \<Rightarrow> color_t \<Rightarrow> color_t \<Rightarrow> direction_t \<Rightarrow> NeoPattern" where
  "TheaterChase_new s interval color1 color2 dir =
     NeoPattern_new TheaterChase interval color1 color2 (numPixels s) dir"

definition ColorWipe_new :: "NeoPatterns \<Rightarrow> millis_t \<Rightarrow> color_t \<Rightarrow> direction_t \<Rightarrow> NeoPattern" where
  "ColorWipe_new s interval color dir = NeoPattern_new ColorWipe interval color 0 (numPixels s) dir"

definition Scanner_new :: "NeoPatterns \<Rightarrow> millis_t \<Rightarrow> color_t \<Rightarrow> bool \<Rightarrow> NeoPattern" where
  "Scanner_new s interval color split =
     NeoPattern_new Scanner interval color 0 (numPixels s * (if split then 1 else 2)) FORWARD"

definition Pulsar_new :: "millis_t \<Rightarrow> color_t \<Rightarrow> color_t \<Rightarrow> NeoPattern" where
  "Pulsar_new interval color1 color2 = NeoPattern_new Pulsar interval color1 color2 2 FORWARD"

definition Fade_new ::
  "millis_t \<Rightarrow> color_t \<Rightarrow> color_t \<Rightarrow> uint16_t \<Rightarrow> direction_t \<Rightarrow> NeoPattern" where
  "Fade_new interval color1 color2 steps dir = NeoPattern_new Fade interval color1 color2 steps dir"

text \<open>
  \<^verbatim>\<open>((i * 256 / numPixels()) + Index) & 255\<close>, narrowed to \<^verbatim>\<open>byte\<close>. The loop only
  evaluates it for \<open>i\<close> below the pixel count, so the divisor is not zero.
\<close>

definition rainbow_pos :: "int_width \<Rightarrow> nat \<Rightarrow> uint16_t \<Rightarrow> uint16_t \<Rightarrow> uint8_t" where
  "rainbow_pos iw i n idx =
     (case iw of
        Int16 \<Rightarrow> ucast ((((of_nat i :: 16 word) * 256) div n + idx) AND 255)
      | Int32 \<Rightarrow> word_of_int (((int i * 256) sdiv uint n + uint idx) AND 255))"

text \<open>
  With a 16-bit \<^verbatim>\<open>int\<close> the product \<^verbatim>\<open>i * 256\<close> of two \<^verbatim>\<open>int\<close>s overflows from
  \<open>i = 128\<close> on, which is undefined behaviour: the loop reaches such an \<open>i\<close> exactly when
  the strip has more than 128 pixels.
\<close>

definition RainbowCycle_Update :: "int_width \<Rightarrow> NeoPattern \<Rightarrow> NeoPatterns \<Rightarrow> error + NeoPatterns" where
  "RainbowCycle_Update iw p s =
     (if iw = Int16 \<and> 128 < unat (numPixels s) then Inl SignedOverflow
      else Inr (for_pixels
        (\<lambda>i s'. setPixelColor (of_nat i) (Wheel (rainbow_pos iw i (numPixels s') (Index p))) s') s))"

text \<open>\<^verbatim>\<open>(i + Index) % 3 == 0\<close>\<close>

definition chase_lit :: "int_width \<Rightarrow> nat \<Rightarrow> uint16_t \<Rightarrow> bool" where
  "chase_lit iw i idx =
     (case iw of
        Int16 \<Rightarrow> ((of_nat i :: 16 word) + idx) mod 3 = 0
      | Int32 \<Rightarrow> (int i + uint idx) smod 3 = 0)"

definition TheaterChase_Update :: "int_width \<Rightarrow> NeoPattern \<Rightarrow> NeoPatterns \<Rightarrow> NeoPatterns" where
  "TheaterChase_Update iw p s =
     for_pixels
       (\<lambda>i. setPixelColor (of_nat i) (if chase_lit iw i (Index p) then Color1 p else Color2 p)) s"

definition ColorWipe_Update :: "NeoPattern \<Rightarrow> NeoPatterns \<Rightarrow> NeoPatterns" where
  "ColorWipe_Update p s = setPixelColor (Index p) (Color1 p) s"

text \<open>\<^verbatim>\<open>i == Index || i == TotalSteps - Index\<close>\<close>

definition scanner_lit :: "int_width \<Rightarrow> nat \<Rightarrow> uint16_t \<Rightarrow> uint16_t \<Rightarrow> bool" where
  "scanner_lit iw i steps idx =
     (case iw of
        Int16 \<Rightarrow> (of_nat i :: 16 word) = idx \<or> (of_nat i :: 16 word) = steps - idx
      | Int32 \<Rightarrow> int i = uint idx \<or> int i = uint steps - uint idx)"

definition Scanner_Update :: "int_width \<Rightarrow> NeoPattern \<Rightarrow> NeoPatterns \<Rightarrow> NeoPatterns" where
  "Scanner_Update iw p s =
     for_pixels
       (\<lambda>i s'. setPixelColor (of_nat i)
          (if scanner_lit iw i (TotalSteps p) (Index p) then Color1 p
           else DimColor (getPixelColor (of_nat i) s')) s') s"

definition Pulsar_Update :: "NeoPattern \<Rightarrow> NeoPatterns \<Rightarrow> NeoPatterns" where
  "Pulsar_Update p s = ColorSet (if Index p = 0 then Color1 p else Color2 p) s"

text \<open>
  One channel of the fade:
  \<^verbatim>\<open>((c1 * (TotalSteps - Index)) + (c2 * Index)) / TotalSteps\<close>, narrowed to \<^verbatim>\<open>uint8_t\<close>.
  The channels are \<^verbatim>\<open>uint8_t\<close> and promoted to \<^verbatim>\<open>int\<close>; the two counters are
  \<^verbatim>\<open>uint16_t\<close>. The division by a zero \<^verbatim>\<open>TotalSteps\<close> is an error.
\<close>

definition Fade_mix ::
  "int_width \<Rightarrow> uint8_t \<Rightarrow> uint8_t \<Rightarrow> uint16_t \<Rightarrow> uint16_t \<Rightarrow> error + uint8_t" where
  "Fade_mix iw c1 c2 steps idx =
     (if steps = 0 then Inl DivisionByZero
      else case iw of
        Int16 \<Rightarrow> Inr (ucast (((ucast c1 :: 16 word) * (steps - idx) + ucast c2 * idx) div steps))
      | Int32 \<Rightarrow> Inr (word_of_int
                      ((uint c1 * (uint steps - uint idx) + uint c2 * uint idx) sdiv uint steps)))"

definition Fade_Update :: "int_width \<Rightarrow> NeoPattern \<Rightarrow> NeoPatterns \<Rightarrow> error + NeoPatterns" where
  "Fade_Update iw p s =
     (case Fade_mix iw (Red (Color1 p)) (Red (Color2 p)) (TotalSteps p) (Index p) of
        Inl e \<Rightarrow> Inl e
      | Inr red \<Rightarrow>
     (case Fade_mix iw (Green (Color1 p)) (Green (Color2 p)) (TotalSteps p) (Index p) of
        Inl e \<Rightarrow> Inl e
      | Inr green \<Rightarrow>
     (case Fade_mix iw (Blue (Color1 p)) (Blue (Color2 p)) (TotalSteps p) (Index p) of
        Inl e \<Rightarrow> Inl e
      | Inr blue \<Rightarrow> Inr (ColorSet (Color red green blue) s))))"

text \<open>The virtual call \<^verbatim>\<open>ActivePattern->Update()\<close>, dispatched on the class of the object.\<close>

definition NeoPattern_Update :: "int_width \<Rightarrow> NeoPattern \<Rightarrow> NeoPatterns \<Rightarrow> error + NeoPatterns" where
  "NeoPattern_Update iw p s =
     (case kind p of
        RainbowCycle \<Rightarrow> RainbowCycle_Update iw p s
      | TheaterChase \<Rightarrow> Inr (TheaterChase_Update iw p s)
      | ColorWipe \<Rightarrow> Inr (ColorWipe_Update p s)
      | Scanner \<Rightarrow> Inr (Scanner_Update iw p s)
      | Pulsar \<Rightarrow> Inr (Pulsar_Update p s)
      | Fade \<Rightarrow> Fade_Update iw p s)"

subsection \<open>The controller and the pattern objects it points to\<close>

text \<open>
  The controller does not own its pattern: \<^verbatim>\<open>ActivePattern\<close> points to an object that
  lives elsewhere. The state of the program is the strip together with a store of pattern
  objects. Following a null pointer, or a pointer to no object, is an error.
\<close>

record system =
  strip :: NeoPatterns
  heap :: "addr \<Rightarrow> NeoPattern option"

definition deref :: "system \<Rightarrow> addr option \<Rightarrow> error + (addr \<times> NeoPattern)" where
  "deref sys q =
     (case q of
        None \<Rightarrow> Inl NullPointer
      | Some a \<Rightarrow> (case heap sys a of None \<Rightarrow> Inl DanglingPointer | Some p \<Rightarrow> Inr (a, p)))"

definition Start :: "addr option \<Rightarrow> system \<Rightarrow> error + system" where
  "Start pattern sys =
     (case deref sys pattern of
        Inl e \<Rightarrow> Inl e
      | Inr (a, p) \<Rightarrow>
          Inr (sys\<lparr>strip := (strip sys)\<lparr>ActivePattern := pattern\<rparr>,
                   heap := (heap sys)(a \<mapsto> Reset p)\<rparr>))"

text \<open>
  \<^verbatim>\<open>NeoPatterns::Update()\<close>. The clock is read twice, by \<^verbatim>\<open>ShouldUpdate()\<close> (\<open>now\<close>) and,
  after the frame has been computed and transmitted, by \<^verbatim>\<open>AfterUpdate()\<close> (\<open>now'\<close>).
\<close>

definition NeoPatterns_Update :: "int_width \<Rightarrow> millis_t \<Rightarrow> millis_t \<Rightarrow> system \<Rightarrow> error + system" where
  "NeoPatterns_Update iw now now' sys =
     (if IsActive (strip sys) then
        (case deref sys (ActivePattern (strip sys)) of
           Inl e \<Rightarrow> Inl e
         | Inr (a, p) \<Rightarrow>
             if ShouldUpdate now p then
               (case NeoPattern_Update iw p (strip sys) of
                  Inl e \<Rightarrow> Inl e
                | Inr s1 \<Rightarrow>
                    Inr (sys\<lparr>strip := show_strip s1,
                             heap := (heap sys)(a \<mapsto> AfterUpdate now' p)\<rparr>))
             else Inr sys)
      else Inr sys)"

text \<open>
  The host loop: one call of \<^verbatim>\<open>Update()\<close> for each pair of clock readings, stopping at
  the first error. \<open>applied\<close> tells whether a tick runs the body of the update, and
  \<open>applied_updates\<close> counts the ticks of a run that do.
\<close>

definition applied :: "millis_t \<Rightarrow> system \<Rightarrow> bool" where
  "applied now sys =
     (IsActive (strip sys) \<and>
      (case deref sys (ActivePattern (strip sys)) of Inl e \<Rightarrow> False | Inr (a, p) \<Rightarrow> ShouldUpdate now p))"

fun ticks :: "int_width \<Rightarrow> (millis_t \<times> millis_t) list \<Rightarrow> system \<Rightarrow> error + system" where
  "ticks iw [] sys = Inr sys"
| "ticks iw ((now, now') # ts) sys =
     (case NeoPatterns_Update iw now now' sys of Inl e \<Rightarrow> Inl e | Inr sys' \<Rightarrow> ticks iw ts sys')"

fun applied_updates :: "int_width \<Rightarrow> (millis_t \<times> millis_t) list \<Rightarrow> system \<Rightarrow> nat" where
  "applied_updates iw [] sys = 0"
| "applied_updates iw ((now, now') # ts) sys =
     (case NeoPatterns_Update iw now now' sys of
        Inl e \<Rightarrow> 0
      | Inr sys' \<Rightarrow> (if applied now sys then 1 else 0) + applied_updates iw ts sys')"

text \<open>
  The calls a program can make on a pattern object, for stating what holds after any
  sequence of them.
\<close>

datatype pattern_call = CallReset | CallIncrement | CallAfterUpdate millis_t | CallReverse

fun call :: "pattern_call \<Rightarrow> NeoPattern \<Rightarrow> NeoPattern" where
  "call CallReset p = Reset p"
| "call CallIncrement p = Increment p"
| "call (CallAfterUpdate now) p = AfterUpdate now p"
| "call CallReverse p = Reverse p"

subsection \<open>The fade as the specification words it\<close>

text \<open>
  The specification gives the fade, for each channel, as
  \<open>(channel1 \<times> (totalSteps - index) + channel2 \<times> index) / totalSteps\<close> with integer
  division. The two definitions below follow these words over the natural numbers; the
  theorems compare \<^verbatim>\<open>Fade::Update\<close> with them.
\<close>

definition spec_fade_channel :: "nat \<Rightarrow> nat \<Rightarrow> nat \<Rightarrow> nat \<Rightarrow> nat" where
  "spec_fade_channel channel1 channel2 totalSteps index =
     (channel1 * (totalSteps - index) + channel2 * index) div totalSteps"

definition spec_fade_color :: "color_t \<Rightarrow> color_t \<Rightarrow> nat \<Rightarrow> nat \<Rightarrow> color_t" where
  "spec_fade_color color1 color2 totalSteps index =
     Color (of_nat (spec_fade_channel (unat (Red color1)) (unat (Red color2)) totalSteps index))
           (of_nat (spec_fade_channel (unat (Green color1)) (unat (Green color2)) totalSteps index))
           (of_nat (spec_fade_channel (unat (Blue color1)) (unat (Blue color2)) totalSteps index))"

subsection \<open>Progress of a colour wipe\<close>

text \<open>
  The state of a colour wipe at address \<open>a\<close>, attached to a strip that held the pixels
  \<open>px0\<close> when it was started, after \<open>j\<close> applied updates: up to one full lap the first
  \<open>j\<close> pixels have the colour, the others are as they were, and the index and the count
  of completions are \<open>j mod n\<close> and \<open>j div n\<close> for a strip of \<open>n\<close> pixels. It is the
  invariant of the proof of the scenario.
\<close>

definition wipe_progress :: "addr \<Rightarrow> color_t \<Rightarrow> color_t list \<Rightarrow> nat \<Rightarrow> system \<Rightarrow> bool" where
  "wipe_progress a c px0 j sys =
     (ActivePattern (strip sys) = Some a \<and> length (pixels (strip sys)) = length px0 \<and>
      (case heap sys a of
         None \<Rightarrow> False
       | Some p \<Rightarrow>
           kind p = ColorWipe \<and> Color1 p = c \<and> unat (TotalSteps p) = length px0 \<and>
           Direction p = FORWARD \<and> Index p < TotalSteps p \<and>
           (j \<le> length px0 \<longrightarrow>
              pixels (strip sys) = replicate j c @ drop j px0 \<and>
              unat (Index p) = j mod length px0 \<and> Completed p = j div length px0)))"

section \<open>Properties\<close>

subsection \<open>One step of the counter\<close>

lemma scast_FORWARD: "(scast FORWARD :: uint16_t) = 1"
  by (simp add: FORWARD_def)

lemma scast_REVERSE: "(scast REVERSE :: uint16_t) = - 1"
  by (simp add: REVERSE_def)

lemma u16_succ_le: "(x::uint16_t) < t \<Longrightarrow> (t \<le> x + 1) = (Suc (unat x) = unat t)"
  by unat_arith

lemma u16_succ_pos: "(x::uint16_t) < t \<Longrightarrow> \<not> (x + 1 \<le> 0)"
  by unat_arith

lemma u16_succ_unat: "(x::uint16_t) < t \<Longrightarrow> unat (x + 1) = Suc (unat x)"
  by unat_arith

lemma Increment_forward:
  assumes "Direction p = FORWARD" and "Index p < TotalSteps p"
  shows "Increment p =
    (if Suc (unat (Index p)) = unat (TotalSteps p)
     then p\<lparr>Index := 0, Completed := Suc (Completed p)\<rparr>
     else p\<lparr>Index := Index p + 1\<rparr>)"
  using u16_succ_le[OF assms(2)] u16_succ_pos[OF assms(2)]
  by (simp add: Increment_def Let_def assms(1) scast_FORWARD OnComplete_def)

lemma u16_pred_zero: "(x::uint16_t) = 0 \<Longrightarrow> t \<le> x - 1"
  by simp

lemma u16_pred_one: "(x::uint16_t) = 1 \<Longrightarrow> x < t \<Longrightarrow> \<not> t \<le> x - 1"
  by unat_arith

lemma u16_pred_big: "(x::uint16_t) \<noteq> 0 \<Longrightarrow> x \<noteq> 1 \<Longrightarrow> x < t \<Longrightarrow> \<not> t \<le> x - 1 \<and> \<not> x - 1 \<le> 0 \<and> x - 1 < t"
  by unat_arith

lemma Increment_reverse:
  assumes "Direction p = REVERSE" and "Index p < TotalSteps p"
  shows "Increment p =
    (if Index p = 0 then p\<lparr>Index := 0, Completed := Suc (Completed p)\<rparr>
     else if Index p = 1 then p\<lparr>Index := TotalSteps p - 1, Completed := Suc (Completed p)\<rparr>
     else p\<lparr>Index := Index p - 1\<rparr>)"
proof -
  consider "Index p = 0" | "Index p = 1" | "Index p \<noteq> 0" "Index p \<noteq> 1" by blast
  then show ?thesis
  proof cases
    case 1
    then show ?thesis using u16_pred_zero[OF 1, of "TotalSteps p"]
      by (simp add: Increment_def Let_def assms(1) scast_REVERSE OnComplete_def)
  next
    case 2
    then show ?thesis using u16_pred_one[OF 2 assms(2)]
      by (simp add: Increment_def Let_def assms(1) scast_REVERSE OnComplete_def)
  next
    case 3
    then show ?thesis using u16_pred_big[OF 3 assms(2)]
      by (simp add: Increment_def Let_def assms(1) scast_REVERSE OnComplete_def)
  qed
qed

subsection \<open>The forward cycle\<close>

lemma funpow_forward:
  assumes "Direction p = FORWARD" and "1 \<le> TotalSteps p" and "Index p = 0"
  shows "Direction ((Increment ^^ n) p) = FORWARD
       \<and> TotalSteps ((Increment ^^ n) p) = TotalSteps p
       \<and> unat (Index ((Increment ^^ n) p)) = n mod unat (TotalSteps p)
       \<and> Completed ((Increment ^^ n) p) = Completed p + n div unat (TotalSteps p)"
proof (induction n)
  case 0
  then show ?case using assms by simp
next
  case (Suc n)
  let ?q = "(Increment ^^ n) p"
  from assms(2) have pos: "0 < unat (TotalSteps p)" by unat_arith
  from Suc have d: "Direction ?q = FORWARD" and t: "TotalSteps ?q = TotalSteps p"
    and i: "unat (Index ?q) = n mod unat (TotalSteps p)"
    and c: "Completed ?q = Completed p + n div unat (TotalSteps p)" by simp_all
  from i pos have lt: "Index ?q < TotalSteps ?q"
    by (simp add: word_less_nat_alt t)
  show ?case
  proof (cases "Suc (unat (Index ?q)) = unat (TotalSteps ?q)")
    case True
    then show ?thesis using d t i c
      by (simp add: Increment_forward[OF d lt] mod_Suc div_Suc)
  next
    case False
    then show ?thesis using d t i c
      by (simp add: Increment_forward[OF d lt] mod_Suc div_Suc u16_succ_unat[OF lt])
  qed
qed

text \<open>
  C2: from index 0 in the forward direction, with \<open>TotalSteps \<ge> 1\<close>, the index after \<open>n\<close>
  calls of \<^verbatim>\<open>Increment()\<close> is \<open>n mod TotalSteps\<close> and \<^verbatim>\<open>OnComplete()\<close> has been called
  \<open>n div TotalSteps\<close> times more than before; the next call fires it exactly when the
  index would have become \<open>TotalSteps\<close>, and otherwise does not fire it.
\<close>

theorem Increment_forward_cycle:
  assumes "1 \<le> TotalSteps p" and "Direction p = FORWARD" and "Index p = 0"
  shows "unat (Index ((Increment ^^ n) p)) = n mod unat (TotalSteps p)
       \<and> Completed ((Increment ^^ n) p) = Completed p + n div unat (TotalSteps p)
       \<and> (Completed ((Increment ^^ Suc n) p) = Suc (Completed ((Increment ^^ n) p))
            \<longleftrightarrow> Suc (unat (Index ((Increment ^^ n) p))) = unat (TotalSteps p))
       \<and> (Completed ((Increment ^^ Suc n) p) = Completed ((Increment ^^ n) p)
            \<longleftrightarrow> Suc (unat (Index ((Increment ^^ n) p))) \<noteq> unat (TotalSteps p))"
proof -
  let ?q = "(Increment ^^ n) p"
  note f = funpow_forward[OF assms(2) assms(1) assms(3), of n]
  from assms(1) have pos: "0 < unat (TotalSteps p)" by unat_arith
  from f pos have lt: "Index ?q < TotalSteps ?q"
    by (simp add: word_less_nat_alt)
  from f have d: "Direction ?q = FORWARD" by simp
  show ?thesis using f by (simp add: Increment_forward[OF d lt])
qed

theorem Increment_forward_cycle_witness:
  "1 \<le> TotalSteps (NeoPattern_new ColorWipe 50 0x00FF00 0 3 FORWARD)
   \<and> Direction (NeoPattern_new ColorWipe 50 0x00FF00 0 3 FORWARD) = FORWARD
   \<and> Index (NeoPattern_new ColorWipe 50 0x00FF00 0 3 FORWARD) = 0
   \<and> unat (Index ((Increment ^^ 7) (NeoPattern_new ColorWipe 50 0x00FF00 0 3 FORWARD))) = 1
   \<and> Completed ((Increment ^^ 7) (NeoPattern_new ColorWipe 50 0x00FF00 0 3 FORWARD)) = 2"
  using Increment_forward_cycle [of "NeoPattern_new ColorWipe 50 0x00FF00 0 3 FORWARD" 7]
  by (simp add: NeoPattern_new_def Reset_def)

subsection \<open>The index stays in range\<close>

lemma u16_pred_lt: "(x::uint16_t) < t \<Longrightarrow> t - 1 < t \<and> 0 < t"
  by unat_arith

lemma u16_pred_lt2: "(x::uint16_t) < t \<Longrightarrow> x \<noteq> 0 \<Longrightarrow> x - 1 < t"
  by unat_arith

lemma u16_succ_lt: "(x::uint16_t) < t \<Longrightarrow> Suc (unat x) \<noteq> unat t \<Longrightarrow> x + 1 < t"
  by unat_arith

lemma Increment_in_range:
  assumes "Index p < TotalSteps p" and "Direction p = FORWARD \<or> Direction p = REVERSE"
  shows "Index (Increment p) < TotalSteps p
       \<and> TotalSteps (Increment p) = TotalSteps p \<and> Direction (Increment p) = Direction p"
proof -
  note b = u16_pred_lt[OF assms(1)]
  from assms(2) show ?thesis
  proof
    assume d: "Direction p = FORWARD"
    show ?thesis
      using b u16_succ_lt[OF assms(1)] by (simp add: Increment_forward[OF d assms(1)])
  next
    assume d: "Direction p = REVERSE"
    show ?thesis
      using b u16_pred_lt2[OF assms(1)] by (simp add: Increment_reverse[OF d assms(1)])
  qed
qed

lemma Reverse_in_range:
  assumes "Index p < TotalSteps p" and "Direction p = FORWARD \<or> Direction p = REVERSE"
  shows "Index (Reverse p) < TotalSteps p \<and> TotalSteps (Reverse p) = TotalSteps p
       \<and> (Direction (Reverse p) = FORWARD \<or> Direction (Reverse p) = REVERSE)"
  using u16_pred_lt[OF assms(1)] assms(2)
  by (auto simp: Reverse_def Let_def FORWARD_def REVERSE_def)

lemma call_in_range:
  assumes "Index p < TotalSteps p" and "Direction p = FORWARD \<or> Direction p = REVERSE"
  shows "Index (call c p) < TotalSteps p \<and> TotalSteps (call c p) = TotalSteps p
       \<and> (Direction (call c p) = FORWARD \<or> Direction (call c p) = REVERSE)"
proof (cases c)
  case CallReset
  then show ?thesis using u16_pred_lt[OF assms(1)] assms(2) by (simp add: Reset_def)
next
  case CallIncrement
  then show ?thesis using Increment_in_range[OF assms] assms(2) by simp
next
  case (CallAfterUpdate now)
  have "Index (p\<lparr>LastUpdate := now\<rparr>) < TotalSteps (p\<lparr>LastUpdate := now\<rparr>)"
    and "Direction (p\<lparr>LastUpdate := now\<rparr>) = FORWARD \<or> Direction (p\<lparr>LastUpdate := now\<rparr>) = REVERSE"
    using assms by simp_all
  from Increment_in_range[OF this] CallAfterUpdate assms(2) show ?thesis
    by (simp add: AfterUpdate_def)
next
  case CallReverse
  then show ?thesis using Reverse_in_range[OF assms] by simp
qed

lemma fold_call_in_range:
  assumes "Index p < TotalSteps p" and "Direction p = FORWARD \<or> Direction p = REVERSE"
  shows "Index (fold call cs p) < TotalSteps p
       \<and> TotalSteps (fold call cs p) = TotalSteps p
       \<and> (Direction (fold call cs p) = FORWARD \<or> Direction (fold call cs p) = REVERSE)"
  using assms
proof (induction cs arbitrary: p)
  case Nil
  then show ?case by simp
next
  case (Cons c cs)
  from call_in_range[OF Cons.prems, of c]
  have 1: "Index (call c p) < TotalSteps (call c p)"
    and 2: "Direction (call c p) = FORWARD \<or> Direction (call c p) = REVERSE"
    and 3: "TotalSteps (call c p) = TotalSteps p" by simp_all
  from Cons.IH[OF 1 2] 3 show ?case by simp
qed

lemma Reverse_flips:
  assumes "Direction p = FORWARD \<or> Direction p = REVERSE"
  shows "sint (Direction (Reverse p)) = - sint (Direction p)
       \<and> Index (Reverse p) = (if Direction (Reverse p) = FORWARD then 0 else TotalSteps p - 1)"
  using assms by (auto simp: Reverse_def Let_def FORWARD_def REVERSE_def)

text \<open>
  C3: for a pattern constructed with \<open>totalSteps \<ge> 1\<close> and a direction of \<open>+1\<close> or \<open>-1\<close>,
  after construction and after every sequence of calls of \<^verbatim>\<open>Reset()\<close>, \<^verbatim>\<open>Increment()\<close>,
  \<^verbatim>\<open>AfterUpdate()\<close> and \<^verbatim>\<open>Reverse()\<close> the index is at least 0 and below \<open>TotalSteps\<close>, and
  the direction is still \<open>+1\<close> or \<open>-1\<close>. \<^verbatim>\<open>Reverse()\<close> flips the sign of the direction and
  puts the index at 0 when the new direction is forward and at \<open>TotalSteps - 1\<close> when it is
  reverse; the state it returns is again in range, being one more call.
\<close>

theorem index_in_range_invariant:
  assumes "1 \<le> totalSteps" and "dir = FORWARD \<or> dir = REVERSE"
    and "p = fold call cs (NeoPattern_new k interval color1 color2 totalSteps dir)"
  shows "TotalSteps p = totalSteps
       \<and> 0 \<le> uint (Index p) \<and> uint (Index p) < uint totalSteps
       \<and> (Direction p = FORWARD \<or> Direction p = REVERSE)
       \<and> sint (Direction (Reverse p)) = - sint (Direction p)
       \<and> Index (Reverse p) = (if Direction (Reverse p) = FORWARD then 0 else totalSteps - 1)"
proof -
  let ?p0 = "NeoPattern_new k interval color1 color2 totalSteps dir"
  from assms(1) have "0 < totalSteps" by unat_arith
  then have i: "Index ?p0 < TotalSteps ?p0"
    by (simp add: NeoPattern_new_def Reset_def)
  have d: "Direction ?p0 = FORWARD \<or> Direction ?p0 = REVERSE"
    using assms(2) by (simp add: NeoPattern_new_def Reset_def)
  have t: "TotalSteps ?p0 = totalSteps"
    by (simp add: NeoPattern_new_def Reset_def)
  from fold_call_in_range[OF i d, of cs] t assms(3)
  have r: "Index p < TotalSteps p" "TotalSteps p = totalSteps"
    "Direction p = FORWARD \<or> Direction p = REVERSE" by simp_all
  from Reverse_flips[OF r(3)] r show ?thesis
    by (simp add: word_less_def)
qed

theorem index_in_range_invariant_witness:
  "(1::uint16_t) \<le> 3 \<and> (FORWARD = FORWARD \<or> FORWARD = REVERSE)
   \<and> uint (Index (fold call [CallIncrement, CallReverse, CallIncrement, CallIncrement, CallAfterUpdate 7]
         (NeoPattern_new Scanner 20 0xFF0000 0 3 FORWARD))) < 3"
  using index_in_range_invariant [of 3 FORWARD
      "fold call [CallIncrement, CallReverse, CallIncrement, CallIncrement, CallAfterUpdate 7]
         (NeoPattern_new Scanner 20 0xFF0000 0 3 FORWARD)"
      "[CallIncrement, CallReverse, CallIncrement, CallIncrement, CallAfterUpdate 7]"
      Scanner 20 "0xFF0000" 0]
  by simp

subsection \<open>The reverse cycle\<close>

lemma u16_pred_nonzero: "(1::uint16_t) < t \<Longrightarrow> t - 1 \<noteq> 0"
  by unat_arith

text \<open>
  In the reverse direction a step from index 0 stays at 0 and fires \<^verbatim>\<open>OnComplete()\<close>,
  and a step from any other index does not come to rest at 0.
\<close>

lemma Increment_reverse_rest:
  assumes "Direction p = REVERSE" and "Index p < TotalSteps p"
  shows "(Index p = 0 \<longrightarrow>
            Index (Increment p) = 0 \<and> Completed (Increment p) = Suc (Completed p))
       \<and> (Index p \<noteq> 0 \<longrightarrow> Index (Increment p) \<noteq> 0)"
proof (cases "Index p = 1")
  case True
  with assms(2) have "TotalSteps p - 1 \<noteq> 0" by (simp add: u16_pred_nonzero)
  with True show ?thesis by (simp add: Increment_reverse[OF assms])
next
  case False
  then show ?thesis by (simp add: Increment_reverse[OF assms])
qed

text \<open>
  C1: \<^verbatim>\<open>Increment()\<close> adds the direction to the index and applies the two wrap tests in
  the order of the source. The theorem evaluates it in the reverse direction with
  \<open>TotalSteps = 3\<close>. After \<^verbatim>\<open>Reverse()\<close> the index is 2; one call takes it to 1; the next
  call takes it through 0, where the test \<^verbatim>\<open>Index <= 0\<close> sends it on to 2 and fires
  \<^verbatim>\<open>OnComplete()\<close>: the lap has two resting positions, and 0 is not one of them. From
  index 0, where a pattern constructed in the reverse direction starts, the index wraps
  to 65535, the test \<^verbatim>\<open>Index >= TotalSteps\<close> sends it back to 0, and every call fires
  \<^verbatim>\<open>OnComplete()\<close>.
\<close>

theorem Increment_reverse_lap:
  "Index (Reverse (NeoPattern_new ColorWipe 50 0x00FF00 0 3 FORWARD)) = 2
   \<and> Increment (Reverse (NeoPattern_new ColorWipe 50 0x00FF00 0 3 FORWARD))
       = (NeoPattern_new ColorWipe 50 0x00FF00 0 3 REVERSE)\<lparr>Index := 1\<rparr>
   \<and> Increment ((NeoPattern_new ColorWipe 50 0x00FF00 0 3 REVERSE)\<lparr>Index := 1\<rparr>)
       = (NeoPattern_new ColorWipe 50 0x00FF00 0 3 REVERSE)\<lparr>Index := 2, Completed := 1\<rparr>
   \<and> Increment (NeoPattern_new ColorWipe 50 0x00FF00 0 3 REVERSE)
       = (NeoPattern_new ColorWipe 50 0x00FF00 0 3 REVERSE)\<lparr>Index := 0, Completed := 1\<rparr>"
  by (simp add: NeoPattern_new_def Reset_def Reverse_def Increment_def Let_def
      OnComplete_def FORWARD_def REVERSE_def word_le_nat_alt unsigned_minus_1_eq_mask mask_eq_exp_minus_1)

subsection \<open>The interval gate\<close>

lemma Increment_keeps_clock:
  "LastUpdate (Increment p) = LastUpdate p \<and> Interval (Increment p) = Interval p"
  by (simp add: Increment_def Let_def OnComplete_def)

text \<open>
  C5, as the code has it: \<^verbatim>\<open>ShouldUpdate()\<close> is true exactly when the time elapsed since
  \<open>LastUpdate\<close> exceeds \<open>Interval\<close>; it returns a truth value and no state. The elapsed
  time is computed modulo \<open>2 ^ 32\<close>, and is the difference of the two readings as long
  as the clock has not wrapped since the last update. It is false at the clock reading
  that \<^verbatim>\<open>AfterUpdate()\<close> has just stored. With an interval of 0 a tick is eligible
  exactly when the clock differs from \<open>LastUpdate\<close>.
\<close>

theorem ShouldUpdate_elapsed:
  "ShouldUpdate now p = (unat (Interval p) < unat (now - LastUpdate p))
   \<and> (LastUpdate p \<le> now \<longrightarrow> unat (now - LastUpdate p) = unat now - unat (LastUpdate p))
   \<and> \<not> ShouldUpdate now (AfterUpdate now p)
   \<and> ShouldUpdate now (p\<lparr>Interval := 0\<rparr>) = (now \<noteq> LastUpdate p)"
proof -
  have 1: "ShouldUpdate now p = (unat (Interval p) < unat (now - LastUpdate p))"
    by (simp add: ShouldUpdate_def word_less_nat_alt)
  have 2: "LastUpdate p \<le> now \<longrightarrow> unat (now - LastUpdate p) = unat now - unat (LastUpdate p)"
    by (simp add: unat_sub)
  have 3: "\<not> ShouldUpdate now (AfterUpdate now p)"
    by (simp add: ShouldUpdate_def AfterUpdate_def Increment_keeps_clock)
  have 4: "ShouldUpdate now (p\<lparr>Interval := 0\<rparr>) = (now \<noteq> LastUpdate p)"
    by (simp add: ShouldUpdate_def word_greater_zero_iff)
  from 1 2 3 4 show ?thesis by blast
qed

theorem ShouldUpdate_elapsed_witness:
  "LastUpdate (AfterUpdate 100 (NeoPattern_new ColorWipe 50 0x00FF00 0 8 FORWARD)) \<le> 151
   \<and> ShouldUpdate 151 (AfterUpdate 100 (NeoPattern_new ColorWipe 50 0x00FF00 0 8 FORWARD))
   \<and> \<not> ShouldUpdate 150 (AfterUpdate 100 (NeoPattern_new ColorWipe 50 0x00FF00 0 8 FORWARD))
   \<and> \<not> ShouldUpdate 100 (AfterUpdate 100 (NeoPattern_new ColorWipe 50 0x00FF00 0 8 FORWARD))"
  using ShouldUpdate_elapsed [of 151 "AfterUpdate 100 (NeoPattern_new ColorWipe 50 0x00FF00 0 8 FORWARD)"]
    ShouldUpdate_elapsed [of 150 "AfterUpdate 100 (NeoPattern_new ColorWipe 50 0x00FF00 0 8 FORWARD)"]
    ShouldUpdate_elapsed [of 100 "NeoPattern_new ColorWipe 50 0x00FF00 0 8 FORWARD"]
  by (simp add: AfterUpdate_def Increment_keeps_clock NeoPattern_new_def Reset_def word_le_nat_alt)

text \<open>
  With an interval of 0, a tick in the millisecond of the last update is not eligible.
\<close>

theorem interval_zero_counterexample:
  "Interval (AfterUpdate 5 (NeoPattern_new ColorWipe 0 0x00FF00 0 8 FORWARD)) = 0
   \<and> \<not> ShouldUpdate 5 (AfterUpdate 5 (NeoPattern_new ColorWipe 0 0x00FF00 0 8 FORWARD))"
  by (simp add: ShouldUpdate_def AfterUpdate_def Increment_keeps_clock NeoPattern_new_def Reset_def)

subsection \<open>The identity query\<close>

text \<open>
  C10: \<^verbatim>\<open>IsActive(pattern)\<close> compares its argument with \<open>ActivePattern\<close> and checks
  nothing else. When no pattern is attached, as after \<^verbatim>\<open>Stop()\<close> and after the
  construction of the controller, it is true of the null pointer, while \<^verbatim>\<open>IsActive()\<close>
  is false.
\<close>

theorem IsActive_null:
  "IsActive_ptr s pattern = (ActivePattern s = pattern)
   \<and> IsActive_ptr (Stop s) None \<and> \<not> IsActive (Stop s)
   \<and> IsActive_ptr (NeoPatterns_new n pin ty) None \<and> \<not> IsActive (NeoPatterns_new n pin ty)
   \<and> IsActive_ptr (s\<lparr>ActivePattern := None\<rparr>) None \<and> \<not> IsActive (s\<lparr>ActivePattern := None\<rparr>)"
  by (simp add: IsActive_ptr_def IsActive_def Stop_def show_strip_def clear_def NeoPatterns_new_def)

subsection \<open>Colours and the hue wheel\<close>

lemma mask8: "(0xFF :: 32 word) = mask 8"
  by (simp add: mask_eq_exp_minus_1)

lemma mask24: "(0xFFFFFF :: 32 word) = mask 24"
  by (simp add: mask_eq_exp_minus_1)

lemma Red_Color: "Red (Color r g b) = r"
  by (rule bit_word_eqI) (auto simp: Red_def Color_def mask8 bit_simps dest: bit_imp_le_length)

lemma Green_Color: "Green (Color r g b) = g"
  by (rule bit_word_eqI) (auto simp: Green_def Color_def mask8 bit_simps dest: bit_imp_le_length)

lemma Blue_Color: "Blue (Color r g b) = b"
  by (rule bit_word_eqI) (auto simp: Blue_def Color_def mask8 bit_simps dest: bit_imp_le_length)

lemma Color_channels: "Color (Red c) (Green c) (Blue c) = c AND 0xFFFFFF"
proof (rule bit_word_eqI)
  fix n
  assume "n < LENGTH(32)"
  consider "n < 8" | "8 \<le> n" "n < 16" | "16 \<le> n" "n < 24" | "24 \<le> n" by linarith
  then show "bit (Color (Red c) (Green c) (Blue c)) n = bit (c AND 0xFFFFFF) n"
    by cases (auto simp: Red_def Green_def Blue_def Color_def mask8 mask24 bit_simps
        dest: bit_imp_le_length)
qed

lemma u8_max: "(p :: uint8_t) \<le> 255"
proof -
  have "(255 :: uint8_t) = - 1" by simp
  then show ?thesis by (simp only: word_n1_ge)
qed

lemma u8_flip: "unat (255 - p :: uint8_t) = 255 - unat p"
  using u8_max[of p] by (simp add: unat_sub)

lemma u8_triple:
  assumes "(q::uint8_t) \<le> 85"
  shows "unat (q * 3) = 3 * unat q \<and> unat (255 - q * 3) = 255 - 3 * unat q"
proof -
  from assms have "unat q \<le> 85" by (simp add: word_le_nat_alt)
  then have "unat (q * 3) = 3 * unat q" by (simp add: unat_word_ariths)
  then show ?thesis by (simp add: u8_flip)
qed

lemma u8_shift: "(k::uint8_t) \<le> q \<Longrightarrow> unat (q - k) = unat q - unat k"
  by (rule unat_sub)

lemma Wheel_channels:
  "(unat (Red (Wheel p)), unat (Green (Wheel p)), unat (Blue (Wheel p))) =
     (let pos = 255 - unat p in
      if pos < 85 then (255 - 3 * pos, 0, 3 * pos)
      else if pos < 170 then (0, 3 * (pos - 85), 255 - 3 * (pos - 85))
      else (3 * (pos - 170), 255 - 3 * (pos - 170), 0))"
proof -
  let ?q = "255 - p"
  have q: "unat ?q = 255 - unat p" by (rule u8_flip)
  consider "?q < 85" | "85 \<le> ?q" "?q < 170" | "170 \<le> ?q" by fastforce
  then show ?thesis
  proof cases
    case 1
    then have "?q \<le> 85" by simp
    from u8_triple[OF this] 1 q show ?thesis
      by (simp add: Wheel_def Let_def Red_Color Green_Color Blue_Color word_less_nat_alt)
  next
    case 2
    have "unat (?q - 85) = unat ?q - unat (85 :: uint8_t)" using 2(1) by (rule unat_sub)
    then have u: "unat (?q - 85) = unat ?q - 85" by simp
    from 2(2) have "unat ?q < 170" by (simp add: word_less_nat_alt)
    with u have "?q - 85 \<le> 85" by (simp add: word_le_nat_alt)
    from u8_triple[OF this] 2 q u show ?thesis
      by (simp add: Wheel_def Let_def Red_Color Green_Color Blue_Color word_less_nat_alt word_le_nat_alt)
  next
    case 3
    have "unat (?q - 170) = unat ?q - unat (170 :: uint8_t)" using 3 by (rule unat_sub)
    then have u: "unat (?q - 170) = unat ?q - 170" by simp
    with q have "?q - 170 \<le> 85" by (simp add: word_le_nat_alt)
    from u8_triple[OF this] 3 q u show ?thesis
      by (simp add: Wheel_def Let_def Red_Color Green_Color Blue_Color word_less_nat_alt word_le_nat_alt)
  qed
qed

lemma Wheel_24bit: "Wheel p = Color (Red (Wheel p)) (Green (Wheel p)) (Blue (Wheel p))"
  by (simp add: Wheel_def Let_def Red_Color Green_Color Blue_Color)

text \<open>
  C6, as the code has it: \<^verbatim>\<open>Wheel\<close> reverses its input (\<open>pos = 255 - WheelPos\<close>) and maps
  it through three linear segments, \<open>pos < 85\<close>, \<open>85 \<le> pos < 170\<close> (85 positions each)
  and \<open>170 \<le> pos \<le> 255\<close> (86 positions), in which one channel falls from 255 and another
  rises from 0 by 3 for each position, without overflow of a channel, and the third is 0.
  \<^verbatim>\<open>Wheel(0)\<close> is pure red, \<^verbatim>\<open>Wheel(85)\<close> pure green and \<^verbatim>\<open>Wheel(170)\<close> pure blue.
\<close>

theorem Wheel_segments:
  "Wheel 0 = Color 255 0 0 \<and> Wheel 85 = Color 0 255 0 \<and> Wheel 170 = Color 0 0 255
   \<and> Wheel p = Color (Red (Wheel p)) (Green (Wheel p)) (Blue (Wheel p))
   \<and> (unat (Red (Wheel p)), unat (Green (Wheel p)), unat (Blue (Wheel p))) =
       (let pos = 255 - unat p in
        if pos < 85 then (255 - 3 * pos, 0, 3 * pos)
        else if pos < 170 then (0, 3 * (pos - 85), 255 - 3 * (pos - 85))
        else (3 * (pos - 170), 255 - 3 * (pos - 170), 0))"
proof -
  have "Wheel 0 = Color 255 0 0" "Wheel 85 = Color 0 255 0" "Wheel 170 = Color 0 0 255"
    by (simp_all add: Wheel_def Let_def word_less_nat_alt)
  with Wheel_24bit[of p] Wheel_channels[of p] show ?thesis by simp
qed

text \<open>
  \<^verbatim>\<open>Wheel(0)\<close> is not \<^verbatim>\<open>Color(0, 0, 255)\<close>: it is red, as the comment of the source says
  (``a transition r - g - b - back to r'').
\<close>

theorem Wheel_zero_counterexample:
  "Wheel 0 \<noteq> Color 0 0 255 \<and> Wheel 0 = 0xFF0000 \<and> Color 0 0 255 = 0x0000FF"
  by (simp add: Wheel_def Let_def Color_def word_less_nat_alt)

subsection \<open>Filling the strip\<close>

lemma unat_of_nat16: "k < 65536 \<Longrightarrow> unat (of_nat k :: uint16_t) = k"
  by (simp add: unat_of_nat)

lemma numPixels_unat: "length (pixels s) < 65536 \<Longrightarrow> unat (numPixels s) = length (pixels s)"
  by (simp add: numPixels_def unat_of_nat16)

lemma fill_step:
  assumes "k < length xs"
  shows "(replicate k c @ drop k xs)[k := c] = replicate (Suc k) c @ drop (Suc k) xs"
proof -
  have "(replicate k c @ drop k xs)[k := c] = replicate k c @ (drop k xs)[0 := c]"
    by (simp add: list_update_append)
  also have "(drop k xs)[0 := c] = c # drop (Suc k) xs"
    using assms by (simp add: Cons_nth_drop_Suc[symmetric])
  finally show ?thesis by (simp add: replicate_app_Cons_same)
qed

lemma fold_setPixelColor:
  assumes "k \<le> length (pixels s)" and "length (pixels s) < 65536"
  shows "fold (\<lambda>i. setPixelColor (of_nat i) c) [0..<k] s
         = s\<lparr>pixels := replicate k c @ drop k (pixels s)\<rparr>"
  using assms(1)
proof (induction k)
  case 0
  then show ?case by simp
next
  case (Suc k)
  then have k: "k < length (pixels s)" by simp
  with assms(2) have u: "unat (of_nat k :: uint16_t) = k" by (simp add: unat_of_nat16)
  from Suc k have ih: "fold (\<lambda>i. setPixelColor (of_nat i) c) [0..<k] s
         = s\<lparr>pixels := replicate k c @ drop k (pixels s)\<rparr>" by simp
  have "fold (\<lambda>i. setPixelColor (of_nat i) c) [0..<Suc k] s
        = setPixelColor (of_nat k) c (fold (\<lambda>i. setPixelColor (of_nat i) c) [0..<k] s)"
    by simp
  also have "\<dots> = setPixelColor (of_nat k) c (s\<lparr>pixels := replicate k c @ drop k (pixels s)\<rparr>)"
    by (simp only: ih)
  also have "\<dots> = s\<lparr>pixels := replicate (Suc k) c @ drop (Suc k) (pixels s)\<rparr>"
    using k u by (simp add: setPixelColor_def fill_step del: replicate_Suc)
  finally show ?case .
qed

lemma ColorSet_fill:
  assumes "length (pixels s) < 65536"
  shows "ColorSet c s = s\<lparr>pixels := replicate (length (pixels s)) c,
                           shown := replicate (length (pixels s)) c # shown s\<rparr>"
  using fold_setPixelColor[OF order_refl assms, of c]
  by (simp add: ColorSet_def for_pixels_def numPixels_unat[OF assms] show_strip_def)

lemma unat_u8_le: "unat (c :: uint8_t) \<le> 255"
  using unsigned_less[of c, where 'a = nat] by simp

lemma weighted_le:
  assumes "a \<le> (255::nat)" and "b \<le> 255" and "i \<le> t"
  shows "a * (t - i) + b * i \<le> 255 * t"
proof -
  have "a * (t - i) \<le> 255 * (t - i)" using assms(1) by (rule mult_le_mono1)
  moreover have "b * i \<le> 255 * i" using assms(2) by (rule mult_le_mono1)
  ultimately have "a * (t - i) + b * i \<le> 255 * (t - i) + 255 * i" by (rule add_mono)
  also have "\<dots> = 255 * t" using assms(3) by (simp add: algebra_simps flip: distrib_left)
  finally show ?thesis .
qed

lemma spec_fade_channel_le:
  assumes "a \<le> 255" and "b \<le> 255" and "i \<le> t" and "0 < t"
  shows "spec_fade_channel a b t i \<le> 255"
proof -
  have "(a * (t - i) + b * i) div t \<le> (255 * t) div t"
    using weighted_le[OF assms(1-3)] by (rule div_le_mono)
  then show ?thesis using assms(4) by (simp add: spec_fade_channel_def)
qed

subsection \<open>The fade\<close>

lemma sdiv_nat: "int a sdiv int b = int (a div b)"
  by (simp add: signed_divide_int_def sgn_if zdiv_int)

lemma Fade_mix_Int32:
  assumes "steps \<noteq> 0" and "idx \<le> steps"
  shows "Fade_mix Int32 c1 c2 steps idx
         = Inr (of_nat (spec_fade_channel (unat c1) (unat c2) (unat steps) (unat idx)))"
proof -
  let ?a = "unat c1" and ?b = "unat c2" and ?t = "unat steps" and ?i = "unat idx"
  from assms(2) have le: "?i \<le> ?t" by (simp add: word_le_nat_alt)
  have "int (?a * (?t - ?i) + ?b * ?i) = int ?a * (int ?t - int ?i) + int ?b * int ?i"
    using le by (simp only: of_nat_add of_nat_mult of_nat_diff)
  then have "uint c1 * (uint steps - uint idx) + uint c2 * uint idx
        = int (?a * (?t - ?i) + ?b * ?i)"
    by (simp only: uint_nat)
  then have "(uint c1 * (uint steps - uint idx) + uint c2 * uint idx) sdiv uint steps
        = int (spec_fade_channel ?a ?b ?t ?i)"
    by (simp only: uint_nat[of steps] sdiv_nat spec_fade_channel_def)
  then have "word_of_int ((uint c1 * (uint steps - uint idx) + uint c2 * uint idx) sdiv uint steps)
        = (of_nat (spec_fade_channel ?a ?b ?t ?i) :: uint8_t)"
    by (simp only: word_of_int_nat[symmetric] of_int_of_nat_eq)
  then show ?thesis using assms(1) by (simp only: Fade_mix_def if_False int_width.case)
qed


lemma unat_ucast_8_16: "unat (ucast (c :: uint8_t) :: uint16_t) = unat c"
  using unat_u8_le[of c] by (simp add: unsigned_ucast_eq take_bit_nat_eq_self_iff)

lemma Fade_mix_Int16:
  assumes "steps \<noteq> 0" and "idx \<le> steps" and "steps \<le> 257"
  shows "Fade_mix Int16 c1 c2 steps idx
         = Inr (of_nat (spec_fade_channel (unat c1) (unat c2) (unat steps) (unat idx)))"
proof -
  let ?a = "unat c1" and ?b = "unat c2" and ?t = "unat steps" and ?i = "unat idx"
  from assms(2) have le: "?i \<le> ?t" by (simp add: word_le_nat_alt)
  from assms(3) have t: "?t \<le> 257" by (simp add: word_le_nat_alt)
  have s: "unat (steps - idx) = ?t - ?i" using assms(2) by (rule unat_sub)
  have "?a * (?t - ?i) + ?b * ?i \<le> 255 * ?t"
    using unat_u8_le unat_u8_le le by (rule weighted_le)
  with t have bound: "?a * (?t - ?i) + ?b * ?i < 65536" by simp
  then have b1: "?a * (?t - ?i) < 65536" and b2: "?b * ?i < 65536" by simp_all
  have m1: "unat ((ucast c1 :: 16 word) * (steps - idx)) = ?a * (?t - ?i)"
    using b1 by (simp add: unat_word_ariths(2) unat_ucast_8_16 s)
  have m2: "unat ((ucast c2 :: 16 word) * idx) = ?b * ?i"
    using b2 by (simp add: unat_word_ariths(2) unat_ucast_8_16)
  have "unat ((ucast c1 :: 16 word) * (steps - idx) + ucast c2 * idx) = ?a * (?t - ?i) + ?b * ?i"
    using bound by (simp add: unat_word_ariths(1) m1 m2)
  then have "unat (((ucast c1 :: 16 word) * (steps - idx) + ucast c2 * idx) div steps)
        = spec_fade_channel ?a ?b ?t ?i"
    by (simp add: unat_div spec_fade_channel_def)
  moreover have "(ucast (((ucast c1 :: 16 word) * (steps - idx) + ucast c2 * idx) div steps) :: uint8_t)
        = of_nat (unat (((ucast c1 :: 16 word) * (steps - idx) + ucast c2 * idx) div steps))"
    by simp
  ultimately have "(ucast (((ucast c1 :: 16 word) * (steps - idx) + ucast c2 * idx) div steps) :: uint8_t)
        = of_nat (spec_fade_channel ?a ?b ?t ?i)"
    by (simp only:)
  then show ?thesis using assms(1) by (simp only: Fade_mix_def if_False int_width.case)
qed

lemma Fade_mix_wraps: "Fade_mix Int16 255 0 1000 0 = Inr 58 \<and> Fade_mix Int32 255 0 1000 0 = Inr 255"
  by (simp add: Fade_mix_def)

lemma unat_of_nat8: "n \<le> 255 \<Longrightarrow> unat (of_nat n :: uint8_t) = n"
  by (simp add: unat_of_nat)

lemma spec_fade_channel_unat:
  assumes "i \<le> t" and "0 < t"
  shows "unat (of_nat (spec_fade_channel (unat (a::uint8_t)) (unat (b::uint8_t)) t i) :: uint8_t)
         = spec_fade_channel (unat a) (unat b) t i"
  using spec_fade_channel_le[OF unat_u8_le unat_u8_le assms] by (rule unat_of_nat8)

lemma spec_fade_channel_start: "0 < t \<Longrightarrow> spec_fade_channel a b t 0 = a"
  by (simp add: spec_fade_channel_def)

lemma spec_fade_channel_middle: "0 < k \<Longrightarrow> spec_fade_channel a b (2 * k) k = (a + b) div 2"
proof -
  assume k: "0 < k"
  have "a * (2 * k - k) + b * k = (a + b) * k" by (simp add: algebra_simps)
  then have "spec_fade_channel a b (2 * k) k = ((a + b) * k) div (2 * k)"
    by (simp only: spec_fade_channel_def)
  also have "\<dots> = (a + b) div 2" using k by simp
  finally show ?thesis .
qed

lemma spec_fade_color_channels:
  assumes "i \<le> t" and "0 < t"
  shows "unat (Red (spec_fade_color c1 c2 t i)) = spec_fade_channel (unat (Red c1)) (unat (Red c2)) t i"
    and "unat (Green (spec_fade_color c1 c2 t i)) = spec_fade_channel (unat (Green c1)) (unat (Green c2)) t i"
    and "unat (Blue (spec_fade_color c1 c2 t i)) = spec_fade_channel (unat (Blue c1)) (unat (Blue c2)) t i"
  by (simp_all only: spec_fade_color_def Red_Color Green_Color Blue_Color spec_fade_channel_unat[OF assms])

lemma spec_fade_color_start: "0 < t \<Longrightarrow> spec_fade_color c1 c2 t 0 = c1 AND 0xFFFFFF"
  by (simp add: spec_fade_color_def spec_fade_channel_start Color_channels)

lemma color24: "(c::color_t) \<le> 0xFFFFFF \<Longrightarrow> c AND 0xFFFFFF = c"
proof -
  assume "c \<le> 0xFFFFFF"
  then have "uint c < 2 ^ 24" by (simp add: word_le_def)
  then have "c AND mask 24 = c" by (simp only: mask_eq_iff)
  then show ?thesis by (simp only: mask24)
qed

text \<open>
  C7, as the code has it: for a fade with \<open>TotalSteps \<ge> 1\<close> and the index in range,
  \<^verbatim>\<open>Fade::Update\<close> sets every pixel of the strip (and transmits it) to the colour whose
  channels are \<open>(channel1 * (TotalSteps - Index) + channel2 * Index) div TotalSteps\<close>, none
  of them truncated to 8 bits. This holds for every \<open>TotalSteps\<close> where \<^verbatim>\<open>int\<close> has 32
  bits, and for \<open>TotalSteps \<le> 257\<close> where it has 16 bits and the sum is computed modulo
  \<open>2 ^ 16\<close>. At index 0 the colour is the 24 bits of \<open>Color1\<close>; where \<open>TotalSteps\<close> is
  even and the index is half of it, every channel is the truncated midpoint of the two
  colours.
\<close>

theorem Fade_Update_interpolates:
  assumes "1 \<le> TotalSteps p" and "Index p < TotalSteps p"
    and "iw = Int16 \<longrightarrow> TotalSteps p \<le> 257"
    and "length (pixels s) < 65536"
    and "c = spec_fade_color (Color1 p) (Color2 p) (unat (TotalSteps p)) (unat (Index p))"
  shows "Fade_Update iw p s
           = Inr (s\<lparr>pixels := replicate (length (pixels s)) c,
                    shown := replicate (length (pixels s)) c # shown s\<rparr>)
       \<and> unat (Red c) = spec_fade_channel (unat (Red (Color1 p))) (unat (Red (Color2 p)))
                           (unat (TotalSteps p)) (unat (Index p))
       \<and> unat (Green c) = spec_fade_channel (unat (Green (Color1 p))) (unat (Green (Color2 p)))
                           (unat (TotalSteps p)) (unat (Index p))
       \<and> unat (Blue c) = spec_fade_channel (unat (Blue (Color1 p))) (unat (Blue (Color2 p)))
                           (unat (TotalSteps p)) (unat (Index p))
       \<and> (Index p = 0 \<longrightarrow> c = Color1 p AND 0xFFFFFF)
       \<and> (Index p = 0 \<and> Color1 p \<le> 0xFFFFFF \<longrightarrow> c = Color1 p)
       \<and> (unat (TotalSteps p) = 2 * unat (Index p) \<longrightarrow>
            unat (Red c) = (unat (Red (Color1 p)) + unat (Red (Color2 p))) div 2
          \<and> unat (Green c) = (unat (Green (Color1 p)) + unat (Green (Color2 p))) div 2
          \<and> unat (Blue c) = (unat (Blue (Color1 p)) + unat (Blue (Color2 p))) div 2)"
proof -
  let ?t = "unat (TotalSteps p)" and ?i = "unat (Index p)"
  from assms(1) have nz: "TotalSteps p \<noteq> 0" by unat_arith
  then have pos: "0 < ?t" by (simp add: unat_gt_0)
  from assms(2) have le: "Index p \<le> TotalSteps p" by simp
  then have le': "?i \<le> ?t" by (simp add: word_le_nat_alt)
  have mix: "Fade_mix iw a b (TotalSteps p) (Index p)
             = Inr (of_nat (spec_fade_channel (unat a) (unat b) ?t ?i))" for a b
  proof (cases iw)
    case Int16
    with assms(3) have "TotalSteps p \<le> 257" by simp
    from Fade_mix_Int16[OF nz le this] Int16 show ?thesis by simp
  next
    case Int32
    from Fade_mix_Int32[OF nz le] Int32 show ?thesis by simp
  qed
  have upd: "Fade_Update iw p s = Inr (ColorSet c s)"
    by (simp add: Fade_Update_def mix assms(5) spec_fade_color_def)
  note ch = spec_fade_color_channels[OF le' pos, of "Color1 p" "Color2 p", folded assms(5)]
  have start: "Index p = 0 \<Longrightarrow> c = Color1 p AND 0xFFFFFF"
    using spec_fade_color_start[OF pos, of "Color1 p" "Color2 p"] by (simp add: assms(5))
  have mid: "spec_fade_channel a b ?t ?i = (a + b) div 2" if "?t = 2 * ?i" for a b
  proof -
    from that pos have "0 < ?i" by simp
    from spec_fade_channel_middle[OF this, of a b] that show ?thesis by simp
  qed
  have f1: "Fade_Update iw p s
           = Inr (s\<lparr>pixels := replicate (length (pixels s)) c,
                    shown := replicate (length (pixels s)) c # shown s\<rparr>)"
    by (simp only: upd ColorSet_fill[OF assms(4)])
  have f2: "Index p = 0 \<and> Color1 p \<le> 0xFFFFFF \<longrightarrow> c = Color1 p"
    using start by (simp add: color24)
  have f3: "?t = 2 * ?i \<longrightarrow>
            unat (Red c) = (unat (Red (Color1 p)) + unat (Red (Color2 p))) div 2
          \<and> unat (Green c) = (unat (Green (Color1 p)) + unat (Green (Color2 p))) div 2
          \<and> unat (Blue c) = (unat (Blue (Color1 p)) + unat (Blue (Color2 p))) div 2"
  proof
    assume h: "?t = 2 * ?i"
    show "unat (Red c) = (unat (Red (Color1 p)) + unat (Red (Color2 p))) div 2
          \<and> unat (Green c) = (unat (Green (Color1 p)) + unat (Green (Color2 p))) div 2
          \<and> unat (Blue c) = (unat (Blue (Color1 p)) + unat (Blue (Color2 p))) div 2"
      by (simp only: ch mid[OF h])
  qed
  from f1 ch start f2 f3 show ?thesis by blast
qed

lemma replicate_2: "replicate 2 x = [x, x]"
  by (simp add: numeral_2_eq_2)

theorem Fade_Update_interpolates_witness:
  "1 \<le> TotalSteps (Increment (Increment (Fade_new 20 0x102030 0x506070 4 FORWARD)))
   \<and> Index (Increment (Increment (Fade_new 20 0x102030 0x506070 4 FORWARD))) = 2
   \<and> TotalSteps (Increment (Increment (Fade_new 20 0x102030 0x506070 4 FORWARD))) = 4
   \<and> length (pixels (NeoPatterns_new 2 6 0)) = 2
   \<and> Fade_Update Int16 (Increment (Increment (Fade_new 20 0x102030 0x506070 4 FORWARD)))
         (NeoPatterns_new 2 6 0)
       = Inr \<lparr>ActivePattern = None, pixels = [0x304050, 0x304050],
              shown = [[0x304050, 0x304050]]\<rparr>"
proof -
  let ?p = "Increment (Increment (Fade_new 20 0x102030 0x506070 4 FORWARD))"
  let ?s = "NeoPatterns_new 2 6 0"
  have p: "?p = \<lparr>kind = Fade, Interval = 20, LastUpdate = 0, Color1 = 0x102030, Color2 = 0x506070,
                 TotalSteps = 4, Index = 2, Direction = FORWARD, Completed = 0\<rparr>"
    by (simp add: Fade_new_def NeoPattern_new_def Reset_def Increment_def Let_def OnComplete_def
        FORWARD_def word_le_nat_alt)
  have s: "?s = \<lparr>ActivePattern = None, pixels = [0, 0], shown = []\<rparr>"
    by (simp add: NeoPatterns_new_def replicate_2)
  have c: "spec_fade_color 0x102030 0x506070 4 2 = 0x304050"
    by (simp add: spec_fade_color_def spec_fade_channel_def Red_def Green_def Blue_def Color_def)
  have h1: "1 \<le> TotalSteps ?p" and h2: "Index ?p < TotalSteps ?p"
    and h3: "Int16 = Int16 \<longrightarrow> TotalSteps ?p \<le> 257" and h4: "length (pixels ?s) < 65536"
    by (simp_all add: p s word_le_nat_alt word_less_nat_alt)
  from Fade_Update_interpolates[OF h1 h2 h3 h4 refl] show ?thesis
    by (simp add: p s c replicate_2)
qed

text \<open>
  With \<open>TotalSteps = 3\<close> the index \<open>3 div 2 = 1\<close> gives a third of the way, not the
  midpoint: from black to blue the strip shows blue 85, and the midpoint is 127.
\<close>

theorem Fade_midpoint_counterexample:
  "Index (Increment (Fade_new 20 0x000000 0x0000FF 3 FORWARD)) = 1
   \<and> unat (TotalSteps (Increment (Fade_new 20 0x000000 0x0000FF 3 FORWARD))) div 2 = 1
   \<and> Fade_Update Int32 (Increment (Fade_new 20 0x000000 0x0000FF 3 FORWARD)) (NeoPatterns_new 2 6 0)
       = Inr \<lparr>ActivePattern = None, pixels = [0x000055, 0x000055], shown = [[0x000055, 0x000055]]\<rparr>
   \<and> Fade_Update Int16 (Increment (Fade_new 20 0x000000 0x0000FF 3 FORWARD)) (NeoPatterns_new 2 6 0)
       = Inr \<lparr>ActivePattern = None, pixels = [0x000055, 0x000055], shown = [[0x000055, 0x000055]]\<rparr>
   \<and> unat (Blue 0x000055) \<noteq> (unat (Blue 0x000000) + unat (Blue 0x0000FF)) div 2"
proof -
  let ?p = "Increment (Fade_new 20 0x000000 0x0000FF 3 FORWARD)"
  let ?s = "NeoPatterns_new 2 6 0"
  have p: "?p = \<lparr>kind = Fade, Interval = 20, LastUpdate = 0, Color1 = 0, Color2 = 0xFF,
                 TotalSteps = 3, Index = 1, Direction = FORWARD, Completed = 0\<rparr>"
    by (simp add: Fade_new_def NeoPattern_new_def Reset_def Increment_def Let_def OnComplete_def
        FORWARD_def word_le_nat_alt)
  have s: "?s = \<lparr>ActivePattern = None, pixels = [0, 0], shown = []\<rparr>"
    by (simp add: NeoPatterns_new_def replicate_2)
  have m: "Fade_mix iw 0 0 3 1 = Inr 0 \<and> Fade_mix iw 0 0xFF 3 1 = Inr 0x55" for iw
    by (cases iw) (simp_all add: Fade_mix_def)
  have ch: "Red 0 = 0 \<and> Green 0 = 0 \<and> Blue 0 = 0 \<and> Red 0xFF = 0 \<and> Green 0xFF = 0 \<and> Blue 0xFF = 0xFF
    \<and> Blue 0x55 = 0x55"
    by (simp add: Red_def Green_def Blue_def)
  have f: "Fade_Update iw ?p ?s
       = Inr \<lparr>ActivePattern = None, pixels = [0x000055, 0x000055], shown = [[0x000055, 0x000055]]\<rparr>" for iw
    by (simp add: p s Fade_Update_def ch m ColorSet_fill replicate_2 Color_def)
  show ?thesis by (simp add: f) (simp add: p ch)
qed

subsection \<open>A cycle of length zero\<close>

lemma Increment_zero_steps:
  assumes "TotalSteps p = 0"
  shows "Index (Increment p) = 0 \<and> Completed (Increment p) = Suc (Completed p)
       \<and> TotalSteps (Increment p) = 0"
  using assms by (simp add: Increment_def Let_def OnComplete_def)

lemma funpow_zero_steps:
  assumes "TotalSteps p = 0"
  shows "TotalSteps ((Increment ^^ n) p) = 0 \<and> Completed ((Increment ^^ n) p) = Completed p + n
       \<and> Index ((Increment ^^ Suc n) p) = 0"
proof (induction n)
  case 0
  then show ?case using Increment_zero_steps[OF assms] assms by simp
next
  case (Suc n)
  then have t: "TotalSteps ((Increment ^^ n) p) = 0"
    and c: "Completed ((Increment ^^ n) p) = Completed p + n" by simp_all
  note a = Increment_zero_steps[OF t]
  then have t': "TotalSteps ((Increment ^^ Suc n) p) = 0" by simp
  from Increment_zero_steps[OF t'] a c show ?case by simp
qed

lemma Fade_Update_zero_steps: "TotalSteps p = 0 \<Longrightarrow> Fade_Update iw p s = Inl DivisionByZero"
  by (simp add: Fade_Update_def Fade_mix_def)

text \<open>
  C8, as the code has it: the constructors check nothing. A pattern constructed with
  \<open>totalSteps = 0\<close> is an object like any other, reset to index 0; the misuse shows when
  it runs. For every pattern whose \<open>TotalSteps\<close> is 0, whatever its index, direction and
  history, the fade divides by zero, and every call of \<^verbatim>\<open>Increment()\<close>, the first and
  each one after it, leaves the index at 0 and calls \<^verbatim>\<open>OnComplete()\<close> once.
\<close>

theorem zero_steps_accepted:
  "NeoPattern_new k interval color1 color2 0 dir
     = \<lparr>kind = k, Interval = interval, LastUpdate = 0, Color1 = color1, Color2 = color2,
        TotalSteps = 0, Index = 0, Direction = dir, Completed = 0\<rparr>
   \<and> TotalSteps (Fade_new interval color1 color2 0 dir) = 0
   \<and> Fade_Update iw (Fade_new interval color1 color2 0 dir) s = Inl DivisionByZero
   \<and> Increment (NeoPattern_new k interval color1 color2 0 dir)
     = (NeoPattern_new k interval color1 color2 0 dir)\<lparr>Completed := 1\<rparr>
   \<and> (TotalSteps p = 0 \<longrightarrow>
        Index (Increment p) = 0 \<and> Completed (Increment p) = Suc (Completed p)
        \<and> TotalSteps (Increment p) = 0
        \<and> Index ((Increment ^^ Suc n) p) = 0
        \<and> Completed ((Increment ^^ n) p) = Completed p + n
        \<and> Fade_Update iw p s = Inl DivisionByZero)"
proof -
  have 1: "NeoPattern_new k interval color1 color2 0 dir
     = \<lparr>kind = k, Interval = interval, LastUpdate = 0, Color1 = color1, Color2 = color2,
        TotalSteps = 0, Index = 0, Direction = dir, Completed = 0\<rparr>
   \<and> TotalSteps (Fade_new interval color1 color2 0 dir) = 0
   \<and> Fade_Update iw (Fade_new interval color1 color2 0 dir) s = Inl DivisionByZero
   \<and> Increment (NeoPattern_new k interval color1 color2 0 dir)
     = (NeoPattern_new k interval color1 color2 0 dir)\<lparr>Completed := 1\<rparr>"
    by (simp add: NeoPattern_new_def Fade_new_def Reset_def Fade_Update_def Fade_mix_def
        Increment_def Let_def OnComplete_def)
  have 2: "TotalSteps p = 0 \<longrightarrow>
        Index (Increment p) = 0 \<and> Completed (Increment p) = Suc (Completed p)
        \<and> TotalSteps (Increment p) = 0
        \<and> Index ((Increment ^^ Suc n) p) = 0
        \<and> Completed ((Increment ^^ n) p) = Completed p + n
        \<and> Fade_Update iw p s = Inl DivisionByZero"
    using Increment_zero_steps[of p] funpow_zero_steps[of p n] Fade_Update_zero_steps[of p iw s]
    by blast
  from 1 2 show ?thesis by blast
qed

theorem zero_steps_accepted_witness:
  "TotalSteps (Increment (Increment (Fade_new 20 0xFF0000 0x0000FF 0 REVERSE))) = 0
   \<and> Completed (Increment (Increment (Fade_new 20 0xFF0000 0x0000FF 0 REVERSE))) = 2
   \<and> Index (Increment (Increment (Increment (Fade_new 20 0xFF0000 0x0000FF 0 REVERSE)))) = 0
   \<and> Completed (Increment (Increment (Increment (Fade_new 20 0xFF0000 0x0000FF 0 REVERSE)))) = 3
   \<and> Fade_Update Int16 (Increment (Increment (Fade_new 20 0xFF0000 0x0000FF 0 REVERSE)))
        (NeoPatterns_new 8 6 0) = Inl DivisionByZero"
proof -
  let ?p = "Increment (Increment (Fade_new 20 0xFF0000 0x0000FF 0 REVERSE))"
  have p: "?p = \<lparr>kind = Fade, Interval = 20, LastUpdate = 0, Color1 = 0xFF0000, Color2 = 0x0000FF,
                 TotalSteps = 0, Index = 0, Direction = REVERSE, Completed = 2\<rparr>"
    by (simp add: Fade_new_def NeoPattern_new_def Reset_def Increment_def Let_def OnComplete_def)
  then have h: "TotalSteps ?p = 0" and c: "Completed ?p = 2" by simp_all
  from zero_steps_accepted[where p = ?p and iw = Int16 and s = "NeoPatterns_new 8 6 0"] h
  have "Index (Increment ?p) = 0 \<and> Completed (Increment ?p) = Suc (Completed ?p)
        \<and> Fade_Update Int16 ?p (NeoPatterns_new 8 6 0) = Inl DivisionByZero"
    by blast
  with h c show ?thesis by simp
qed

text \<open>
  A fade of zero steps is constructed and started without an error, and the first update
  that is due divides by zero.
\<close>

theorem zero_steps_counterexample:
  "TotalSteps (Fade_new 20 0xFF0000 0x0000FF 0 FORWARD) = 0
   \<and> (case Start (Some 0) \<lparr>strip = NeoPatterns_new 8 6 0,
                             heap = [0 \<mapsto> Fade_new 20 0xFF0000 0x0000FF 0 FORWARD]\<rparr> of
        Inl e \<Rightarrow> Inl e
      | Inr sys \<Rightarrow> NeoPatterns_Update Int32 21 22 sys) = Inl DivisionByZero"
  by (simp add: NeoPattern_new_def Fade_new_def Reset_def Fade_Update_def Fade_mix_def
      Start_def deref_def NeoPatterns_Update_def IsActive_def ShouldUpdate_def NeoPattern_Update_def
      word_less_nat_alt)

subsection \<open>The colour wipe scenario\<close>

lemma Increment_keeps_fields:
  "kind (Increment p) = kind p \<and> Color1 (Increment p) = Color1 p \<and> Color2 (Increment p) = Color2 p
   \<and> TotalSteps (Increment p) = TotalSteps p \<and> Direction (Increment p) = Direction p"
  by (simp add: Increment_def Let_def OnComplete_def)

lemma wipe_step:
  assumes inv: "wipe_progress a c px0 j sys"
  shows "\<exists>sys'. NeoPatterns_Update iw now now' sys = Inr sys'
           \<and> wipe_progress a c px0 (j + (if applied now sys then 1 else 0)) sys'"
proof -
  from inv obtain p where hp: "heap sys a = Some p"
    by (auto simp: wipe_progress_def split: option.splits)
  from inv hp have act: "ActivePattern (strip sys) = Some a"
    and len: "length (pixels (strip sys)) = length px0"
    and k: "kind p = ColorWipe" and c: "Color1 p = c" and t: "unat (TotalSteps p) = length px0"
    and d: "Direction p = FORWARD" and lt: "Index p < TotalSteps p"
    by (simp_all add: wipe_progress_def)
  from inv hp have upto: "j \<le> length px0 \<Longrightarrow>
      pixels (strip sys) = replicate j c @ drop j px0 \<and>
      unat (Index p) = j mod length px0 \<and> Completed p = j div length px0"
    by (simp add: wipe_progress_def)
  show ?thesis
  proof (cases "ShouldUpdate now p")
    case False
    then have "NeoPatterns_Update iw now now' sys = Inr sys" and "\<not> applied now sys"
      using act hp by (simp_all add: NeoPatterns_Update_def applied_def IsActive_def deref_def)
    with inv show ?thesis by simp
  next
    case True
    let ?q = "p\<lparr>LastUpdate := now'\<rparr>"
    let ?p' = "Increment ?q"
    let ?s' = "show_strip (setPixelColor (Index p) c (strip sys))"
    let ?sys' = "sys\<lparr>strip := ?s', heap := (heap sys)(a \<mapsto> ?p')\<rparr>"
    from True have upd: "NeoPatterns_Update iw now now' sys = Inr ?sys'" and ap: "applied now sys"
      using act hp k c
      by (simp_all add: NeoPatterns_Update_def applied_def IsActive_def deref_def
          NeoPattern_Update_def ColorWipe_Update_def AfterUpdate_def)
    have dq: "Direction ?q = FORWARD" and ltq: "Index ?q < TotalSteps ?q"
      using d lt by simp_all
    note step = Increment_forward[OF dq ltq]
    have range: "Index ?p' < TotalSteps ?p'"
      using Increment_in_range[OF ltq] dq by simp
    have fields: "kind ?p' = ColorWipe \<and> Color1 ?p' = c \<and> unat (TotalSteps ?p') = length px0
        \<and> Direction ?p' = FORWARD"
      using k c t d by (simp add: Increment_keeps_fields)
    have frame: "ActivePattern ?s' = Some a \<and> length (pixels ?s') = length px0"
      using act len by (simp add: show_strip_def setPixelColor_def)
    have prog: "pixels ?s' = replicate (Suc j) c @ drop (Suc j) px0 \<and>
          unat (Index ?p') = Suc j mod length px0 \<and> Completed ?p' = Suc j div length px0"
      if le: "Suc j \<le> length px0"
    proof -
      from le have jl: "j < length px0" and "j \<le> length px0" by simp_all
      from upto[OF this(2)] jl have px: "pixels (strip sys) = replicate j c @ drop j px0"
        and i: "unat (Index p) = j" and cp: "Completed p = 0" by simp_all
      have "pixels ?s' = (replicate j c @ drop j px0)[j := c]"
        using jl len i px by (simp add: show_strip_def setPixelColor_def)
      then have 1: "pixels ?s' = replicate (Suc j) c @ drop (Suc j) px0"
        using jl by (simp only: fill_step)
      have 2: "unat (Index ?p') = Suc j mod length px0 \<and> Completed ?p' = Suc j div length px0"
      proof (cases "Suc j = length px0")
        case True
        then have "0 < length px0" by linarith
        with True show ?thesis using i cp t by (simp add: step)
      next
        case False
        with le have "Suc j < length px0" by simp
        then show ?thesis using i cp t False lt
          by (simp add: step u16_succ_unat[OF lt])
      qed
      from 1 2 show ?thesis by simp
    qed
    have "wipe_progress a c px0 (Suc j) ?sys'"
      using frame fields range prog by (simp add: wipe_progress_def)
    with upd ap show ?thesis by simp
  qed
qed

lemma wipe_ticks:
  assumes "wipe_progress a c px0 j sys"
  shows "\<exists>sys'. ticks iw ts sys = Inr sys'
           \<and> wipe_progress a c px0 (j + applied_updates iw ts sys) sys'"
  using assms
proof (induction ts arbitrary: j sys)
  case Nil
  then show ?case by simp
next
  case (Cons t ts)
  obtain now now' where t: "t = (now, now')" by (cases t)
  from wipe_step[OF Cons.prems, of iw now now'] obtain sys1
    where 1: "NeoPatterns_Update iw now now' sys = Inr sys1"
      and 2: "wipe_progress a c px0 (j + (if applied now sys then 1 else 0)) sys1" by blast
  from Cons.IH[OF 2, of ] obtain sys' where 3: "ticks iw ts sys1 = Inr sys'"
    and 4: "wipe_progress a c px0 (j + (if applied now sys then 1 else 0) + applied_updates iw ts sys1) sys'"
    by blast
  from 1 3 4 t show ?case by (simp add: add.assoc)
qed

lemma replicate_8: "replicate 8 x = [x, x, x, x, x, x, x, x]"
  by (simp add: numeral_eq_Suc)

text \<open>
  C9: a colour wipe of colour \<open>0x00FF00\<close> and interval 50 is constructed for a strip of
  8 pixels, attached and started. Whatever the clock readings of the ticks are, the run
  of the ticks returns without an error, and if exactly 8 of the ticks applied an update
  then all 8 pixels are \<open>0x00FF00\<close>, \<^verbatim>\<open>OnComplete()\<close> has been called once, and the index
  is back at 0.
\<close>

theorem ColorWipe_scenario:
  assumes "length (pixels (strip sys0)) = 8"
    and "heap sys0 a = Some (ColorWipe_new (strip sys0) 50 0x00FF00 FORWARD)"
    and "Start (Some a) sys0 = Inr sys1"
    and "applied_updates iw ts sys1 = 8"
  shows "\<exists>sys p. ticks iw ts sys1 = Inr sys \<and> heap sys a = Some p
           \<and> pixels (strip sys) = replicate 8 0x00FF00 \<and> Completed p = 1 \<and> Index p = 0"
proof -
  let ?p0 = "ColorWipe_new (strip sys0) 50 0x00FF00 FORWARD"
  have n: "numPixels (strip sys0) = 8"
    using assms(1) by (simp add: numPixels_def)
  from assms(2,3) have sys1: "sys1 = sys0\<lparr>strip := (strip sys0)\<lparr>ActivePattern := Some a\<rparr>,
                                   heap := (heap sys0)(a \<mapsto> Reset ?p0)\<rparr>"
    by (simp add: Start_def deref_def)
  have "wipe_progress a 0x00FF00 (pixels (strip sys0)) 0 sys1"
    using assms(1)
    by (simp add: sys1 wipe_progress_def ColorWipe_new_def NeoPattern_new_def Reset_def n
        word_less_nat_alt)
  from wipe_ticks[OF this, of iw ts] assms(4) obtain sys
    where t: "ticks iw ts sys1 = Inr sys"
      and w: "wipe_progress a 0x00FF00 (pixels (strip sys0)) 8 sys" by auto
  from w obtain p where hp: "heap sys a = Some p"
    by (auto simp: wipe_progress_def split: option.splits)
  from w hp assms(1) have "pixels (strip sys) = replicate 8 0x00FF00"
    and "Completed p = 1" and "unat (Index p) = 0"
    by (simp_all add: wipe_progress_def)
  then have "pixels (strip sys) = replicate 8 0x00FF00 \<and> Completed p = 1 \<and> Index p = 0"
    by (simp add: unat_eq_0)
  with t hp show ?thesis by blast
qed

theorem ColorWipe_scenario_witness:
  "length (pixels (strip \<lparr>strip = NeoPatterns_new 8 6 0,
       heap = [0 \<mapsto> ColorWipe_new (NeoPatterns_new 8 6 0) 50 0x00FF00 FORWARD]\<rparr>)) = 8
   \<and> (\<exists>sys1. Start (Some 0) \<lparr>strip = NeoPatterns_new 8 6 0,
             heap = [0 \<mapsto> ColorWipe_new (NeoPatterns_new 8 6 0) 50 0x00FF00 FORWARD]\<rparr> = Inr sys1
        \<and> applied_updates Int32
             [(50, 50), (51, 51), (102, 103), (154, 154), (205, 205), (256, 256), (307, 307),
              (358, 358), (409, 409)] sys1 = 8
        \<and> (\<exists>sys p. ticks Int32
             [(50, 50), (51, 51), (102, 103), (154, 154), (205, 205), (256, 256), (307, 307),
              (358, 358), (409, 409)] sys1 = Inr sys
            \<and> heap sys 0 = Some p \<and> pixels (strip sys) = replicate 8 0x00FF00
            \<and> Completed p = 1 \<and> Index p = 0))"
proof -
  let ?sys0 = "\<lparr>strip = NeoPatterns_new 8 6 0,
       heap = [0 \<mapsto> ColorWipe_new (NeoPatterns_new 8 6 0) 50 0x00FF00 FORWARD]\<rparr>"
  let ?ts = "[(50, 50), (51, 51), (102, 103), (154, 154), (205, 205), (256, 256), (307, 307),
              (358, 358), (409, 409)] :: (millis_t \<times> millis_t) list"
  let ?sys1 = "\<lparr>strip = \<lparr>ActivePattern = Some 0, pixels = [0, 0, 0, 0, 0, 0, 0, 0], shown = []\<rparr>,
       heap = [0 \<mapsto> \<lparr>kind = ColorWipe, Interval = 50, LastUpdate = 0, Color1 = 0x00FF00,
                      Color2 = 0, TotalSteps = 8, Index = 0, Direction = 1, Completed = 0\<rparr>]\<rparr>"
  have h1: "length (pixels (strip ?sys0)) = 8"
    by (simp add: NeoPatterns_new_def)
  have h2: "heap ?sys0 0 = Some (ColorWipe_new (strip ?sys0) 50 0x00FF00 FORWARD)"
    by simp
  have h3: "Start (Some 0) ?sys0 = Inr ?sys1"
    by (simp add: Start_def deref_def NeoPatterns_new_def replicate_8 ColorWipe_new_def
        NeoPattern_new_def Reset_def numPixels_def FORWARD_def)
  have h4: "applied_updates Int32 ?ts ?sys1 = 8"
    by (simp add: NeoPatterns_Update_def applied_def IsActive_def deref_def ShouldUpdate_def
        NeoPattern_Update_def ColorWipe_Update_def setPixelColor_def show_strip_def
        AfterUpdate_def Increment_def Let_def OnComplete_def word_less_nat_alt word_le_nat_alt)
  from ColorWipe_scenario[OF h1 h2 h3 h4] h1 h3 h4 show ?thesis by blast
qed

subsection \<open>The update of the controller\<close>

lemma setPixelColor_frame:
  "ActivePattern (setPixelColor n c s) = ActivePattern s \<and> shown (setPixelColor n c s) = shown s
   \<and> length (pixels (setPixelColor n c s)) = length (pixels s)"
  by (simp add: setPixelColor_def)

lemma fold_frame:
  assumes "\<And>i s. ActivePattern (body i s) = ActivePattern s \<and> shown (body i s) = shown s
              \<and> length (pixels (body i s)) = length (pixels s)"
  shows "ActivePattern (fold body xs s) = ActivePattern s \<and> shown (fold body xs s) = shown s
       \<and> length (pixels (fold body xs s)) = length (pixels s)"
proof (induction xs arbitrary: s)
  case Nil
  then show ?case by simp
next
  case (Cons x xs)
  from Cons[of "body x s"] assms[of x s] show ?case by simp
qed

lemma for_pixels_frame:
  assumes "\<And>i s. ActivePattern (body i s) = ActivePattern s \<and> shown (body i s) = shown s
              \<and> length (pixels (body i s)) = length (pixels s)"
  shows "ActivePattern (for_pixels body s) = ActivePattern s \<and> shown (for_pixels body s) = shown s
       \<and> length (pixels (for_pixels body s)) = length (pixels s)"
  unfolding for_pixels_def using assms by (rule fold_frame)

lemma ColorSet_frame:
  "ActivePattern (ColorSet c s) = ActivePattern s
   \<and> shown (ColorSet c s) = pixels (ColorSet c s) # shown s
   \<and> length (pixels (ColorSet c s)) = length (pixels s)"
  using for_pixels_frame[of "\<lambda>i. setPixelColor (of_nat i) c" s, OF setPixelColor_frame]
  by (simp add: ColorSet_def show_strip_def)

lemma NeoPattern_Update_frame:
  assumes "NeoPattern_Update iw p s = Inr s1"
  shows "ActivePattern s1 = ActivePattern s \<and> length (pixels s1) = length (pixels s)
       \<and> shown s1 = (if kind p = Pulsar \<or> kind p = Fade then [pixels s1] else []) @ shown s"
proof (cases "kind p")
  case RainbowCycle
  with assms have "s1 = for_pixels
        (\<lambda>i s'. setPixelColor (of_nat i) (Wheel (rainbow_pos iw i (numPixels s') (Index p))) s') s"
    by (simp add: NeoPattern_Update_def RainbowCycle_Update_def split: if_splits)
  with RainbowCycle show ?thesis
    using for_pixels_frame[of "\<lambda>i s'. setPixelColor (of_nat i) (Wheel (rainbow_pos iw i (numPixels s') (Index p))) s'" s,
        OF setPixelColor_frame]
    by simp
next
  case TheaterChase
  with assms have "s1 = TheaterChase_Update iw p s" by (simp add: NeoPattern_Update_def)
  with TheaterChase show ?thesis
    using for_pixels_frame[of "\<lambda>i. setPixelColor (of_nat i) (if chase_lit iw i (Index p) then Color1 p else Color2 p)" s,
        OF setPixelColor_frame]
    by (simp add: TheaterChase_Update_def)
next
  case ColorWipe
  with assms have "s1 = ColorWipe_Update p s" by (simp add: NeoPattern_Update_def)
  with ColorWipe show ?thesis
    by (simp add: ColorWipe_Update_def setPixelColor_frame)
next
  case Scanner
  with assms have "s1 = Scanner_Update iw p s" by (simp add: NeoPattern_Update_def)
  with Scanner show ?thesis
    using for_pixels_frame[of "\<lambda>i s'. setPixelColor (of_nat i)
          (if scanner_lit iw i (TotalSteps p) (Index p) then Color1 p
           else DimColor (getPixelColor (of_nat i) s')) s'" s, OF setPixelColor_frame]
    by (simp add: Scanner_Update_def)
next
  case Pulsar
  with assms have "s1 = Pulsar_Update p s" by (simp add: NeoPattern_Update_def)
  with Pulsar show ?thesis
    by (simp add: Pulsar_Update_def ColorSet_frame)
next
  case Fade
  with assms have "\<exists>c. s1 = ColorSet c s"
    by (auto simp: NeoPattern_Update_def Fade_Update_def split: sum.splits)
  with Fade show ?thesis
    by (auto simp: ColorSet_frame)
qed

text \<open>
  C4: \<^verbatim>\<open>NeoPatterns::Update()\<close> returns the state unchanged, and no error, when no pattern
  is attached, and also when the attached pattern is not due. When the pattern \<open>p\<close> is due
  and its frame computation returns the strip \<open>s1\<close>, the update transmits the buffer of
  \<open>s1\<close>, the frame computed from \<open>p\<close> before its index moves, and then stores the pattern
  with \<open>LastUpdate\<close> set to the clock and the index advanced. The frame computation
  leaves the attachment and the pixel count alone; it transmits nothing itself, except
  for \<^verbatim>\<open>Pulsar\<close> and \<^verbatim>\<open>Fade\<close>, whose \<^verbatim>\<open>ColorSet\<close> has already transmitted the same frame
  once.
\<close>

theorem NeoPatterns_Update_order:
  "(ActivePattern (strip sys) = None \<longrightarrow> NeoPatterns_Update iw now now' sys = Inr sys)
   \<and> (ActivePattern (strip sys) = Some a \<and> heap sys a = Some p \<and> \<not> ShouldUpdate now p \<longrightarrow>
        NeoPatterns_Update iw now now' sys = Inr sys)
   \<and> (ActivePattern (strip sys) = Some a \<and> heap sys a = Some p \<and> ShouldUpdate now p
        \<and> NeoPattern_Update iw p (strip sys) = Inr s1 \<longrightarrow>
        NeoPatterns_Update iw now now' sys
          = Inr (sys\<lparr>strip := s1\<lparr>shown := pixels s1 # shown s1\<rparr>,
                    heap := (heap sys)(a \<mapsto> Increment (p\<lparr>LastUpdate := now'\<rparr>))\<rparr>)
        \<and> ActivePattern s1 = Some a \<and> length (pixels s1) = length (pixels (strip sys))
        \<and> shown s1 = (if kind p = Pulsar \<or> kind p = Fade then [pixels s1] else [])
                        @ shown (strip sys)
        \<and> LastUpdate (Increment (p\<lparr>LastUpdate := now'\<rparr>)) = now')"
proof -
  have 1: "ActivePattern (strip sys) = None \<longrightarrow> NeoPatterns_Update iw now now' sys = Inr sys"
    by (simp add: NeoPatterns_Update_def IsActive_def)
  have 2: "ActivePattern (strip sys) = Some a \<and> heap sys a = Some p \<and> \<not> ShouldUpdate now p \<longrightarrow>
        NeoPatterns_Update iw now now' sys = Inr sys"
    by (simp add: NeoPatterns_Update_def IsActive_def deref_def)
  have 3: "ActivePattern (strip sys) = Some a \<and> heap sys a = Some p \<and> ShouldUpdate now p
        \<and> NeoPattern_Update iw p (strip sys) = Inr s1 \<longrightarrow>
        NeoPatterns_Update iw now now' sys
          = Inr (sys\<lparr>strip := s1\<lparr>shown := pixels s1 # shown s1\<rparr>,
                    heap := (heap sys)(a \<mapsto> Increment (p\<lparr>LastUpdate := now'\<rparr>))\<rparr>)"
    by (simp add: NeoPatterns_Update_def IsActive_def deref_def show_strip_def AfterUpdate_def)
  have 4: "ActivePattern (strip sys) = Some a \<and> NeoPattern_Update iw p (strip sys) = Inr s1 \<longrightarrow>
        ActivePattern s1 = Some a \<and> length (pixels s1) = length (pixels (strip sys))
        \<and> shown s1 = (if kind p = Pulsar \<or> kind p = Fade then [pixels s1] else [])
                        @ shown (strip sys)"
    using NeoPattern_Update_frame[of iw p "strip sys" s1] by simp
  have 5: "LastUpdate (Increment (p\<lparr>LastUpdate := now'\<rparr>)) = now'"
    by (simp add: Increment_keeps_clock)
  from 1 2 3 4 5 show ?thesis by blast
qed

theorem NeoPatterns_Update_order_witness:
  "NeoPatterns_Update Int32 60 61 \<lparr>strip = NeoPatterns_new 2 6 0, heap = Map.empty\<rparr>
     = Inr \<lparr>strip = NeoPatterns_new 2 6 0, heap = Map.empty\<rparr>
   \<and> \<not> ShouldUpdate 50 (ColorWipe_new (NeoPatterns_new 2 6 0) 50 0x00FF00 FORWARD)
   \<and> NeoPatterns_Update Int32 50 50
        \<lparr>strip = \<lparr>ActivePattern = Some 0, pixels = [0, 0], shown = []\<rparr>,
         heap = [0 \<mapsto> ColorWipe_new (NeoPatterns_new 2 6 0) 50 0x00FF00 FORWARD]\<rparr>
     = Inr \<lparr>strip = \<lparr>ActivePattern = Some 0, pixels = [0, 0], shown = []\<rparr>,
         heap = [0 \<mapsto> ColorWipe_new (NeoPatterns_new 2 6 0) 50 0x00FF00 FORWARD]\<rparr>
   \<and> ShouldUpdate 51 (ColorWipe_new (NeoPatterns_new 2 6 0) 50 0x00FF00 FORWARD)
   \<and> NeoPattern_Update Int32 (ColorWipe_new (NeoPatterns_new 2 6 0) 50 0x00FF00 FORWARD)
        \<lparr>ActivePattern = Some 0, pixels = [0, 0], shown = []\<rparr>
     = Inr \<lparr>ActivePattern = Some 0, pixels = [0x00FF00, 0], shown = []\<rparr>
   \<and> NeoPatterns_Update Int32 51 52
        \<lparr>strip = \<lparr>ActivePattern = Some 0, pixels = [0, 0], shown = []\<rparr>,
         heap = [0 \<mapsto> ColorWipe_new (NeoPatterns_new 2 6 0) 50 0x00FF00 FORWARD]\<rparr>
     = Inr \<lparr>strip = \<lparr>ActivePattern = Some 0, pixels = [0x00FF00, 0], shown = [[0x00FF00, 0]]\<rparr>,
         heap = [0 \<mapsto> (ColorWipe_new (NeoPatterns_new 2 6 0) 50 0x00FF00 FORWARD)
                          \<lparr>LastUpdate := 52, Index := 1\<rparr>]\<rparr>"
proof -
  let ?cw = "ColorWipe_new (NeoPatterns_new 2 6 0) 50 0x00FF00 FORWARD"
  let ?s = "\<lparr>ActivePattern = Some 0, pixels = [0, 0], shown = []\<rparr> :: NeoPatterns"
  let ?sys = "\<lparr>strip = ?s, heap = [0 \<mapsto> ?cw]\<rparr>"
  have cw: "?cw = \<lparr>kind = ColorWipe, Interval = 50, LastUpdate = 0, Color1 = 0x00FF00, Color2 = 0,
                  TotalSteps = 2, Index = 0, Direction = 1, Completed = 0\<rparr>"
    by (simp add: ColorWipe_new_def NeoPattern_new_def Reset_def NeoPatterns_new_def numPixels_def
        FORWARD_def)
  have none: "ActivePattern (strip \<lparr>strip = NeoPatterns_new 2 6 0, heap = Map.empty\<rparr>) = None"
    by (simp add: NeoPatterns_new_def)
  have notyet: "\<not> ShouldUpdate 50 ?cw" and due: "ShouldUpdate 51 ?cw"
    by (simp_all add: cw ShouldUpdate_def word_less_nat_alt)
  have frame: "NeoPattern_Update Int32 ?cw ?s
      = Inr \<lparr>ActivePattern = Some 0, pixels = [0x00FF00, 0], shown = []\<rparr>"
    by (simp add: cw NeoPattern_Update_def ColorWipe_Update_def setPixelColor_def)
  have adv: "Increment (?cw\<lparr>LastUpdate := 52\<rparr>) = ?cw\<lparr>LastUpdate := 52, Index := 1\<rparr>"
    by (simp add: cw Increment_def Let_def word_le_nat_alt)
  note t1 = NeoPatterns_Update_order[of "\<lparr>strip = NeoPatterns_new 2 6 0, heap = Map.empty\<rparr>"
      Int32 60 61 0 ?cw ?s]
  note t2 = NeoPatterns_Update_order[of ?sys Int32 50 50 0 ?cw ?s]
  note t3 = NeoPatterns_Update_order[of ?sys Int32 51 52 0 ?cw
      "\<lparr>ActivePattern = Some 0, pixels = [0x00FF00, 0], shown = []\<rparr>"]
  from t1 none have 1: "NeoPatterns_Update Int32 60 61 \<lparr>strip = NeoPatterns_new 2 6 0, heap = Map.empty\<rparr>
     = Inr \<lparr>strip = NeoPatterns_new 2 6 0, heap = Map.empty\<rparr>" by blast
  from t2 notyet have 2: "NeoPatterns_Update Int32 50 50 ?sys = Inr ?sys" by simp
  from t3 due frame have 3: "NeoPatterns_Update Int32 51 52 ?sys
     = Inr (?sys\<lparr>strip := \<lparr>ActivePattern = Some 0, pixels = [0x00FF00, 0], shown = []\<rparr>
                       \<lparr>shown := pixels \<lparr>ActivePattern = Some 0, pixels = [0x00FF00, 0], shown = []\<rparr>
                                 # shown \<lparr>ActivePattern = Some 0, pixels = [0x00FF00, 0], shown = []\<rparr>\<rparr>,
                heap := (heap ?sys)(0 \<mapsto> Increment (?cw\<lparr>LastUpdate := 52\<rparr>))\<rparr>)"
    by simp
  from 1 2 3 notyet due frame show ?thesis by (simp add: adv)
qed

end
